theory Spec2Isabelle
  imports Main "HOL-Library.Sublist"
begin

section \<open>Python strings and values\<close>

text \<open>
  A Python \<open>str\<close> is modelled as a \<open>string\<close> whose characters are the code points
  below 256. \<open>is_space\<close> is \<open>str.isspace\<close> on one such code point (it is also the class
  \<open>\s\<close> of \<open>re\<close> on \<open>str\<close> patterns) and \<open>is_digit\<close> is the class \<open>\d\<close>.
\<close>

definition is_space :: "char \<Rightarrow> bool" where
  "is_space c = (let n = (of_char c :: nat)
     in (9 \<le> n \<and> n \<le> 13) \<or> (28 \<le> n \<and> n \<le> 32) \<or> n = 133 \<or> n = 160)"

definition is_digit :: "char \<Rightarrow> bool" where
  "is_digit c = (let n = (of_char c :: nat) in 48 \<le> n \<and> n \<le> 57)"

definition strip :: "string \<Rightarrow> string" where
  \<comment> \<open>\<open>s.strip()\<close>\<close>
  "strip s = rev (dropWhile is_space (rev (dropWhile is_space s)))"

fun split_nl :: "string \<Rightarrow> string list" where
  \<comment> \<open>\<open>s.split('\n')\<close>: never the empty list\<close>
  "split_nl [] = [[]]"
| "split_nl (c # cs) =
     (if c = CHR 0x0A then [] # split_nl cs
      else (case split_nl cs of [] \<Rightarrow> [[c]] | l # ls \<Rightarrow> (c # l) # ls))"

definition starts_with :: "string \<Rightarrow> string \<Rightarrow> bool" where
  \<comment> \<open>\<open>s.startswith(p)\<close>\<close>
  "starts_with p s = (take (length p) s = p)"

fun is_substring :: "string \<Rightarrow> string \<Rightarrow> bool" where
  \<comment> \<open>\<open>v in s\<close> for two strings\<close>
  "is_substring v [] = (v = [])"
| "is_substring v (c # cs) = (starts_with v (c # cs) \<or> is_substring v cs)"

fun join :: "string \<Rightarrow> string list \<Rightarrow> string" where
  \<comment> \<open>\<open>sep.join(xs)\<close>\<close>
  "join sep [] = []"
| "join sep [x] = x"
| "join sep (x # y # ys) = x @ sep @ join sep (y # ys)"

definition digit_char :: "nat \<Rightarrow> char" where
  \<comment> \<open>the character of a digit below 10\<close>
  "digit_char d = ''0123456789'' ! d"

fun str_nat :: "nat \<Rightarrow> string" where
  \<comment> \<open>\<open>str(n)\<close> for a non-negative integer\<close>
  "str_nat n = (if n < 10 then [digit_char n] else str_nat (n div 10) @ [digit_char (n mod 10)])"

declare str_nat.simps [simp del]

definition str_int :: "int \<Rightarrow> string" where
  \<comment> \<open>\<open>str(n)\<close> for an integer\<close>
  "str_int n = (if n < 0 then ''-'' @ str_nat (nat (- n)) else str_nat (nat n))"

definition hex_char :: "nat \<Rightarrow> char" where
  \<comment> \<open>the character of a hexadecimal digit below 16\<close>
  "hex_char d = ''0123456789abcdef'' ! d"

definition upper :: "string \<Rightarrow> string" where
  \<comment> \<open>\<open>s.upper()\<close> on the letters a..z; the only arguments are the three vendor names\<close>
  "upper s = map (\<lambda>c. case map_of (zip ''abcdefghijklmnopqrstuvwxyz'' ''ABCDEFGHIJKLMNOPQRSTUVWXYZ'') c of
                       None \<Rightarrow> c | Some u \<Rightarrow> u) s"

definition lower :: "string \<Rightarrow> string" where
  \<comment> \<open>\<open>s.lower()\<close> on the letters A..Z; the only arguments are the three vendor names\<close>
  "lower s = map (\<lambda>c. case map_of (zip ''ABCDEFGHIJKLMNOPQRSTUVWXYZ'' ''abcdefghijklmnopqrstuvwxyz'') c of
                       None \<Rightarrow> c | Some l \<Rightarrow> l) s"

text \<open>
  The values the baseline document holds under \<open>expected_model\<close> and
  \<open>expected_vbios_list\<close>: a string or a list of strings.
\<close>

datatype pyval = Str string | StrList "string list"

definition repr_char :: "char \<Rightarrow> char \<Rightarrow> string" where
  \<comment> \<open>one character of \<open>repr(s)\<close> when the quote is \<open>q\<close>\<close>
  "repr_char q c = (let n = (of_char c :: nat) in
     if c = q \<or> c = CHR 0x5C then [CHR 0x5C, c]
     else if c = CHR 0x09 then [CHR 0x5C, CHR ''t'']
     else if c = CHR 0x0A then [CHR 0x5C, CHR ''n'']
     else if c = CHR 0x0D then [CHR 0x5C, CHR ''r'']
     else if n < 32 \<or> n = 127 \<or> (128 \<le> n \<and> n \<le> 160) \<or> n = 173
       then [CHR 0x5C, CHR ''x'', hex_char (n div 16), hex_char (n mod 16)]
     else [c])"

definition repr_str :: "string \<Rightarrow> string" where
  \<comment> \<open>\<open>repr(s)\<close>: double quotes only when \<open>s\<close> has a single quote and no double quote\<close>
  "repr_str s = (let q = (if CHR 0x27 \<in> set s \<and> CHR 0x22 \<notin> set s then CHR 0x22 else CHR 0x27)
     in [q] @ concat (map (repr_char q) s) @ [q])"

fun format_value :: "pyval \<Rightarrow> string" where
  \<comment> \<open>\<open>f"{v}"\<close>\<close>
  "format_value (Str s) = s"
| "format_value (StrList xs) = ''['' @ join '', '' (map repr_str xs) @ '']''"

fun join_value :: "string \<Rightarrow> pyval \<Rightarrow> string" where
  \<comment> \<open>\<open>sep.join(v)\<close>: a string is joined character by character\<close>
  "join_value sep (Str s) = join sep (map (\<lambda>c. [c]) s)"
| "join_value sep (StrList xs) = join sep xs"

fun value_contains :: "pyval \<Rightarrow> string \<Rightarrow> bool" where
  \<comment> \<open>\<open>x in v\<close>\<close>
  "value_contains (Str s) x = is_substring x s"
| "value_contains (StrList xs) x = (x \<in> set xs)"

section \<open>The extraction patterns\<close>

text \<open>
  \<open>re.search(pattern, line)\<close> followed by \<open>match.group(1)\<close>, for the four patterns of the
  validators. A pattern is a sequence of pieces, each taking the input and returning the
  rest of it; \<open>re_search\<close> tries every start position from the left. The greedy pieces
  \<open>\d+\<close> and \<open>\s+\<close> never have to give characters back: what follows \<open>\d+\<close> is a colon,
  and what follows \<open>\s+\<close> is \<open>(.*)\<close>, which matches at once.
\<close>

definition re_lit :: "string \<Rightarrow> string \<Rightarrow> string option" where
  "re_lit p s = (if starts_with p s then Some (drop (length p) s) else None)"

definition re_digits1 :: "string \<Rightarrow> string option" where
  \<comment> \<open>\<open>\d+\<close>\<close>
  "re_digits1 s = (if takeWhile is_digit s = [] then None else Some (dropWhile is_digit s))"

definition re_spaces1 :: "string \<Rightarrow> string option" where
  \<comment> \<open>\<open>\s+\<close>\<close>
  "re_spaces1 s = (if takeWhile is_space s = [] then None else Some (dropWhile is_space s))"

definition re_rest :: "string \<Rightarrow> string option" where
  \<comment> \<open>a final \<open>(.*)\<close>: the group is everything up to the next newline\<close>
  "re_rest s = Some (takeWhile (\<lambda>c. c \<noteq> CHR 0x0A) s)"

fun re_lazy_until :: "string \<Rightarrow> string \<Rightarrow> string option" where
  \<comment> \<open>\<open>(.*?)\<close> followed by the literal \<open>p\<close> at the end of the pattern\<close>
  "re_lazy_until p [] = (if starts_with p [] then Some [] else None)"
| "re_lazy_until p (c # cs) =
     (if starts_with p (c # cs) then Some []
      else if c = CHR 0x0A then None
      else map_option (\<lambda>g. c # g) (re_lazy_until p cs))"

fun re_search :: "(string \<Rightarrow> string option) \<Rightarrow> string \<Rightarrow> string option" where
  "re_search m [] = m []"
| "re_search m (c # cs) = (case m (c # cs) of Some g \<Rightarrow> Some g | None \<Rightarrow> re_search m cs)"

definition nvidia_model_regex :: "string \<Rightarrow> string option" where
  \<comment> \<open>\<open>r'GPU \d+: (.*?) \(UUID:'\<close>\<close>
  "nvidia_model_regex = re_search (\<lambda>s.
     Option.bind (re_lit ''GPU '' s) (\<lambda>s.
     Option.bind (re_digits1 s) (\<lambda>s.
     Option.bind (re_lit '': '' s) (\<lambda>s.
     re_lazy_until '' (UUID:'' s))))"

definition nvidia_vbios_regex :: "string \<Rightarrow> string option" where
  \<comment> \<open>\<open>r':\s+(.*)'\<close>\<close>
  "nvidia_vbios_regex = re_search (\<lambda>s.
     Option.bind (re_lit '':'' s) (\<lambda>s.
     Option.bind (re_spaces1 s) re_rest))"

definition amd_model_regex :: "string \<Rightarrow> string option" where
  \<comment> \<open>\<open>r'Card #\d+:\s+(.*)'\<close>\<close>
  "amd_model_regex = re_search (\<lambda>s.
     Option.bind (re_lit ''Card #'' s) (\<lambda>s.
     Option.bind (re_digits1 s) (\<lambda>s.
     Option.bind (re_lit '':'' s) (\<lambda>s.
     Option.bind (re_spaces1 s) re_rest))))"

definition amd_vbios_regex :: "string \<Rightarrow> string option" where
  \<comment> \<open>\<open>r'VBIOS version:\s+(.*)'\<close>\<close>
  "amd_vbios_regex = re_search (\<lambda>s.
     Option.bind (re_lit ''VBIOS version:'' s) (\<lambda>s.
     Option.bind (re_spaces1 s) re_rest))"

section \<open>The report and the console\<close>

record check_result =
  component :: string
  status :: string
  expected :: pyval
  actual :: string
  "notes" :: string

text \<open>
  The dictionary \<open>report_data\<close>; its key \<open>"status"\<close> is the field \<open>overall_status\<close>.
\<close>

record report =
  report_id :: string
  overall_status :: string
  system_model :: string
  checks_performed :: "check_result list"

text \<open>
  What a run changes outside the validator object: the global \<open>report_data\<close>, the lines
  printed to standard output, and the report files written (path and content, the newest
  first).
\<close>

record state =
  report_data :: report
  stdout :: "string list"
  files :: "(string \<times> report) list"

definition CONFIG_FILE_PATH :: string where
  "CONFIG_FILE_PATH = ''./golden_config.yml''"

definition JSON_REPORT_PATH :: string where
  "JSON_REPORT_PATH = ''./validation_report.json''"

definition initial_report :: "string \<Rightarrow> report" where
  \<comment> \<open>the module-level \<open>report_data\<close>; \<open>now\<close> is \<open>datetime.datetime.now().isoformat()\<close>\<close>
  "initial_report now =
     \<lparr>report_id = ''validation_report_'' @ now, overall_status = ''FAIL'',
      system_model = ''Unknown'', checks_performed = []\<rparr>"

definition initial_state :: "string \<Rightarrow> state" where
  "initial_state now = \<lparr>report_data = initial_report now, stdout = [], files = []\<rparr>"

definition print :: "string \<Rightarrow> state \<Rightarrow> state" where
  "print line st = st\<lparr>stdout := stdout st @ [line]\<rparr>"

definition log_msg :: "string \<Rightarrow> bool \<Rightarrow> state \<Rightarrow> state" where
  "log_msg message is_error st =
     print ((if is_error then ''[FAIL]'' else ''[INFO]'') @ '' '' @ message) st"

definition add_check_to_report ::
  "string \<Rightarrow> string \<Rightarrow> pyval \<Rightarrow> string \<Rightarrow> string \<Rightarrow> state \<Rightarrow> state" where
  "add_check_to_report cmp sts exd act nts st =
     st\<lparr>report_data := (report_data st)\<lparr>checks_performed := checks_performed (report_data st) @
       [\<lparr>component = cmp, status = sts, expected = exd, actual = act, notes = nts\<rparr>]\<rparr>\<rparr>"

section \<open>The host\<close>

text \<open>
  What the program asks of its environment. \<open>subprocess_run\<close> is
  \<open>subprocess.run(command, shell=True, check=True, ...)\<close>: the standard output of a command
  that exits with 0, or one of the two exceptions \<open>run_command\<close> catches (the first with
  its standard error). \<open>which\<close> says whether \<open>shutil.which\<close> finds the tool.
  \<open>load_yaml\<close> is \<open>open\<close> followed by \<open>yaml.safe_load\<close>, and \<open>write_json\<close> is \<open>open\<close>
  followed by \<open>json.dump\<close>, each with the text of the exception when one is raised.
  \<open>now\<close> is \<open>datetime.datetime.now().isoformat()\<close> at start-up.
\<close>

datatype proc_result = Completed string | CalledProcessError string | FileNotFoundError

type_synonym gpu_spec = "(string \<times> pyval) list"

record model_spec =
  expected_gpu_vendor :: "string option"
  gpu_spec :: "gpu_spec option"

type_synonym config = "(string \<times> model_spec) list"

datatype yaml_result = YamlData config | YamlNone | YamlException string

datatype write_result = WriteOk | WritePermissionError string | WriteException string

record host =
  subprocess_run :: "string \<Rightarrow> proc_result"
  which :: "string \<Rightarrow> bool"
  load_yaml :: "string \<Rightarrow> yaml_result"
  write_json :: "string \<Rightarrow> write_result"
  now :: string

definition first_word :: "string \<Rightarrow> string" where
  \<comment> \<open>\<open>command.split()[0]\<close>; the commands of this program are literals with a first word\<close>
  "first_word command = takeWhile (\<lambda>c. \<not> is_space c) (dropWhile is_space command)"

definition run_command :: "host \<Rightarrow> string \<Rightarrow> state \<Rightarrow> string option \<times> state" where
  "run_command h command st =
     (case subprocess_run h command of
        Completed out \<Rightarrow> (Some (strip out), st)
      | CalledProcessError err \<Rightarrow>
          (None, log_msg (''Stderr: '' @ strip err) True
                   (log_msg (''Command failed: '' @ [CHR 0x27] @ command @ [CHR 0x27]) True st))
      | FileNotFoundError \<Rightarrow>
          (None, log_msg (''Command '' @ [CHR 0x27] @ first_word command @ [CHR 0x27] @
                          '' not found. Is it installed and in PATH?'') True st))"

section \<open>The validators\<close>

datatype validator_class = NvidiaValidator | AmdValidator | IntelValidator

text \<open>
  A validator object. \<open>gpu_count\<close> exists on the AMD validator only; it is 0 and unused
  on the others.
\<close>

record validator =
  cls :: validator_class
  spec :: gpu_spec
  failures :: int
  vendor_name :: string
  gpu_count :: nat

definition new_validator :: "validator_class \<Rightarrow> gpu_spec \<Rightarrow> validator" where
  \<comment> \<open>the three \<open>__init__\<close> methods\<close>
  "new_validator k sp =
     \<lparr>cls = k, spec = sp, failures = 0,
      vendor_name = (case k of NvidiaValidator \<Rightarrow> ''NVIDIA'' | AmdValidator \<Rightarrow> ''AMD''
                     | IntelValidator \<Rightarrow> ''Intel''),
      gpu_count = 0\<rparr>"

definition gpu_component :: "nat \<Rightarrow> string \<Rightarrow> string" where
  \<comment> \<open>\<open>f"GPU_{i}_{check_name}"\<close>\<close>
  "gpu_component i check_name = ''GPU_'' @ str_nat i @ ''_'' @ check_name"

definition validate_item ::
  "(string \<Rightarrow> string option) \<Rightarrow> string \<Rightarrow> pyval \<Rightarrow> bool \<Rightarrow> nat \<Rightarrow> string \<Rightarrow>
   validator \<times> state \<Rightarrow> validator \<times> state" where
  \<comment> \<open>the body of the loop of \<open>_validate_list_of_items\<close>, for line \<open>i\<close>\<close>
  "validate_item parser_regex check_name expected_value is_vbios i line vs =
     (case vs of (v, st) \<Rightarrow>
      (case parser_regex line of
         Some g \<Rightarrow>
           (let current_value = strip g;
                is_match = (if is_vbios then value_contains expected_value current_value
                            else Str current_value = expected_value)
            in if is_match
               then (v, add_check_to_report (gpu_component i check_name) ''PASS''
                          expected_value current_value []
                          (log_msg (''  [PASS] GPU '' @ str_nat i @ '' '' @ check_name @ '': '' @
                                    current_value) False st))
               else (v\<lparr>failures := failures v + 1\<rparr>,
                     add_check_to_report (gpu_component i check_name) ''FAIL''
                          expected_value current_value []
                          (log_msg (''  [FAIL] GPU '' @ str_nat i @ '' '' @ check_name @
                                    '' Mismatch. Expected: '' @ [CHR 0x27] @
                                    format_value expected_value @ [CHR 0x27] @ '', Found: '' @
                                    [CHR 0x27] @ current_value @ [CHR 0x27]) True st)))
       | None \<Rightarrow>
           (v\<lparr>failures := failures v + 1\<rparr>,
            add_check_to_report (gpu_component i check_name) ''FAIL''
                 expected_value ''Parse Error'' line
                 (log_msg (''  [FAIL] Could not parse '' @ check_name @ '' string for GPU '' @
                           str_nat i @ '': '' @ line) True st))))"

fun validate_items ::
  "(string \<Rightarrow> string option) \<Rightarrow> string \<Rightarrow> pyval \<Rightarrow> bool \<Rightarrow> nat \<Rightarrow> string list \<Rightarrow>
   validator \<times> state \<Rightarrow> validator \<times> state" where
  \<comment> \<open>\<open>for i, line in enumerate(items)\<close>, from index \<open>i\<close> on\<close>
  "validate_items parser_regex check_name expected_value is_vbios i [] vs = vs"
| "validate_items parser_regex check_name expected_value is_vbios i (line # rest) vs =
     validate_items parser_regex check_name expected_value is_vbios (Suc i) rest
       (validate_item parser_regex check_name expected_value is_vbios i line vs)"

definition validate_list_of_items ::
  "validator \<Rightarrow> string list \<Rightarrow> string \<Rightarrow> pyval \<Rightarrow> (string \<Rightarrow> string option) \<Rightarrow> bool \<Rightarrow>
   state \<Rightarrow> validator \<times> state" where
  "validate_list_of_items v items check_name expected_value parser_regex is_vbios st =
     (if items = []
      then (v\<lparr>failures := failures v + 1\<rparr>,
            log_msg (''  [FAIL] Command returned no items for '' @ check_name @ ''.'') True st)
      else validate_items parser_regex check_name expected_value is_vbios 0 items (v, st))"

definition nvidia_check_models :: "host \<Rightarrow> validator \<Rightarrow> pyval \<Rightarrow> state \<Rightarrow> validator \<times> state" where
  "nvidia_check_models h v expected_model st =
     (case run_command h ''nvidia-smi -L'' (log_msg ''Checking GPU Models...'' False st) of
        (None, st') \<Rightarrow> (v\<lparr>failures := failures v + 1\<rparr>, st')
      | (Some models_output, st') \<Rightarrow>
          validate_list_of_items v (split_nl models_output) ''Model'' expected_model
            nvidia_model_regex False st')"

definition nvidia_check_vbios :: "host \<Rightarrow> validator \<Rightarrow> pyval \<Rightarrow> state \<Rightarrow> validator \<times> state" where
  "nvidia_check_vbios h v expected_vbios_list st =
     (case run_command h (''nvidia-smi -q | grep '' @ [CHR 0x27] @ ''VBIOS Version'' @ [CHR 0x27])
             (log_msg ''Checking GPU VBIOS Versions...'' False st) of
        (None, st') \<Rightarrow> (v\<lparr>failures := failures v + 1\<rparr>, st')
      | (Some vbios_output, st') \<Rightarrow>
          validate_list_of_items v (split_nl vbios_output) ''VBIOS'' expected_vbios_list
            nvidia_vbios_regex True st')"

definition non_blank_lines :: "string \<Rightarrow> string list" where
  \<comment> \<open>\<open>[line for line in output.split('\n') if line.strip()]\<close>\<close>
  "non_blank_lines output = filter (\<lambda>line. strip line \<noteq> []) (split_nl output)"

definition amd_check_models :: "host \<Rightarrow> validator \<Rightarrow> pyval \<Rightarrow> state \<Rightarrow> validator \<times> state" where
  "amd_check_models h v expected_model st =
     (case run_command h ''rocm-smi --showproductname'' (log_msg ''Checking GPU Models...'' False st) of
        (None, st') \<Rightarrow>
          (v\<lparr>failures := failures v + 1\<rparr>,
           add_check_to_report ''ROCM_SMI_MODEL'' ''FAIL'' (Str ''Command to run'')
             ''Command failed'' [] st')
      | (Some models_output, st') \<Rightarrow>
          (let gpu_models = non_blank_lines models_output;
               v' = v\<lparr>gpu_count := length gpu_models\<rparr>
           in validate_list_of_items v' gpu_models ''Model'' expected_model amd_model_regex False
                (log_msg (''Found '' @ str_nat (gpu_count v') @ '' AMD GPU(s).'') False st')))"

definition amd_check_vbios :: "host \<Rightarrow> validator \<Rightarrow> pyval \<Rightarrow> state \<Rightarrow> validator \<times> state" where
  "amd_check_vbios h v expected_vbios_list st =
     (case run_command h ''rocm-smi --showvbios'' (log_msg ''Checking GPU VBIOS Versions...'' False st) of
        (None, st') \<Rightarrow>
          (v\<lparr>failures := failures v + 1\<rparr>,
           add_check_to_report ''ROCM_SMI_VBIOS'' ''FAIL'' (Str ''Command to run'')
             ''Command failed'' [] st')
      | (Some vbios_output, st') \<Rightarrow>
          (let vbios_versions = non_blank_lines vbios_output
           in if length vbios_versions \<noteq> gpu_count v
              then (v\<lparr>failures := failures v + 1\<rparr>,
                    log_msg (''  [FAIL] VBIOS count ('' @ str_nat (length vbios_versions) @
                             '') does not match GPU count ('' @ str_nat (gpu_count v) @ '').'')
                      True st')
              else validate_list_of_items v vbios_versions ''VBIOS'' expected_vbios_list
                     amd_vbios_regex True st'))"

definition intel_check_models :: "host \<Rightarrow> validator \<Rightarrow> pyval \<Rightarrow> state \<Rightarrow> validator \<times> state" where
  "intel_check_models h v expected_model st =
     (v, add_check_to_report ''Intel_Check'' ''SKIP'' (Str ''N/A'') ''N/A'' ''Not Implemented''
           (log_msg ''[INFO] Intel Validator (_check_models) is not implemented in this demo.''
              False st))"

definition intel_check_vbios :: "host \<Rightarrow> validator \<Rightarrow> pyval \<Rightarrow> state \<Rightarrow> validator \<times> state" where
  "intel_check_vbios h v expected_vbios_list st =
     (v, log_msg ''[INFO] Intel Validator (_check_vbios) is not implemented in this demo.''
           False st)"

definition check_models :: "host \<Rightarrow> validator \<Rightarrow> pyval \<Rightarrow> state \<Rightarrow> validator \<times> state" where
  \<comment> \<open>the method \<open>_check_models\<close> of the validator's class\<close>
  "check_models h v =
     (case cls v of NvidiaValidator \<Rightarrow> nvidia_check_models h v
      | AmdValidator \<Rightarrow> amd_check_models h v
      | IntelValidator \<Rightarrow> intel_check_models h v)"

definition check_vbios :: "host \<Rightarrow> validator \<Rightarrow> pyval \<Rightarrow> state \<Rightarrow> validator \<times> state" where
  \<comment> \<open>the method \<open>_check_vbios\<close> of the validator's class\<close>
  "check_vbios h v =
     (case cls v of NvidiaValidator \<Rightarrow> nvidia_check_vbios h v
      | AmdValidator \<Rightarrow> amd_check_vbios h v
      | IntelValidator \<Rightarrow> intel_check_vbios h v)"

definition missing_key :: "validator \<Rightarrow> string \<Rightarrow> state \<Rightarrow> bool \<times> validator \<times> state" where
  \<comment> \<open>the \<open>except KeyError as e\<close> branch of \<open>validate\<close>; \<open>str(e)\<close> is the key in quotes\<close>
  "missing_key v k st =
     (False, v\<lparr>failures := failures v + 1\<rparr>,
      add_check_to_report (upper (vendor_name v) @ ''_CONFIG'') ''FAIL''
        (Str ''Config to be present'') ''Missing keys'' (repr_str k)
        (log_msg (''Missing key '' @ repr_str k @ '' in [gpu_spec]['' @ lower (vendor_name v) @
                  ''] section of YAML'') True st))"

definition validate :: "host \<Rightarrow> validator \<Rightarrow> state \<Rightarrow> bool \<times> validator \<times> state" where
  "validate h v st =
     (let st1 = log_msg (''--- Starting '' @ vendor_name v @ '' GPU Validation ---'') False st
      in case map_of (spec v) ''expected_model'' of
           None \<Rightarrow> missing_key v ''expected_model'' st1
         | Some expected_model \<Rightarrow>
            (case map_of (spec v) ''expected_vbios_list'' of
               None \<Rightarrow> missing_key v ''expected_vbios_list'' st1
             | Some expected_vbios_list \<Rightarrow>
                (let st2 = log_msg (''  - VBIOS (any of): '' @ join_value '', '' expected_vbios_list) False
                             (log_msg (''  - Model: '' @ format_value expected_model) False
                               (log_msg ''Golden YAML loaded. Verifying against:'' False st1))
                 in case check_models h v expected_model st2 of (v1, st3) \<Rightarrow>
                    (case check_vbios h v1 expected_vbios_list st3 of (v2, st4) \<Rightarrow>
                       (failures v2 = 0, v2,
                        log_msg (''--- '' @ vendor_name v2 @ '' GPU Validation Finished ---'')
                          False st4)))))"

definition get_validator :: "string \<Rightarrow> gpu_spec \<Rightarrow> state \<Rightarrow> validator option \<times> state" where
  "get_validator expected_vendor sp st =
     (if expected_vendor = ''nvidia'' then (Some (new_validator NvidiaValidator sp), st)
      else if expected_vendor = ''amd'' then (Some (new_validator AmdValidator sp), st)
      else if expected_vendor = ''intel'' then (Some (new_validator IntelValidator sp), st)
      else (None, log_msg (''No validator defined for vendor: '' @ expected_vendor) True st))"

section \<open>The orchestrator\<close>

definition get_system_model :: "host \<Rightarrow> state \<Rightarrow> string option \<times> state" where
  "get_system_model h st =
     (case run_command h (''dmidecode -s system-product-name | tr -d '' @ [CHR 0x27] @ '' '' @ [CHR 0x27])
             (log_msg ''--- [Phase 1: BOM Validation] ---'' False st) of
        (current_model, st') \<Rightarrow>
          (let unreadable =
                 (None,
                  add_check_to_report ''System_Model'' ''FAIL'' (Str ''Any Model'') ''Read Error'' []
                    (log_msg (''--> Did you forget to run with '' @ [CHR 0x27] @ ''sudo'' @ [CHR 0x27] @ ''?'') True
                      (log_msg ''Cannot read system model name (dmidecode failed or returned empty).'' True st')))
           in case current_model of
                None \<Rightarrow> unreadable
              | Some m \<Rightarrow>
                  if m = [] then unreadable
                  else (Some m,
                        (log_msg (''Detected system model: '' @ m) False st')
                          \<lparr>report_data := (report_data st')\<lparr>system_model := m\<rparr>\<rparr>)))"

definition load_config :: "host \<Rightarrow> string \<Rightarrow> state \<Rightarrow> config option \<times> state" where
  "load_config h file_path st =
     (case load_yaml h file_path of
        YamlData cfg \<Rightarrow> (Some cfg, st)
      | YamlNone \<Rightarrow>
          (None, add_check_to_report ''YAML_Parse'' ''FAIL'' (Str ''Valid YAML data'')
                   ''File is empty or invalid'' []
                   (log_msg (''Golden YAML file is empty or malformed: '' @ file_path) True st))
      | YamlException e \<Rightarrow>
          (None, add_check_to_report ''YAML_Load'' ''FAIL'' (Str file_path) ''Load Error'' e
                   (log_msg (''Failed to load Golden YAML: '' @ e) True st)))"

definition tool_found :: "host \<Rightarrow> string option" where
  \<comment> \<open>the three \<open>shutil.which\<close> probes of \<open>run_validation\<close>\<close>
  "tool_found h =
     (if which h ''nvidia-smi'' then Some ''nvidia''
      else if which h ''rocm-smi'' then Some ''amd''
      else if which h ''level-zero-ctl'' then Some ''intel''
      else None)"

definition str_optional :: "string option \<Rightarrow> string" where
  \<comment> \<open>\<open>str(x)\<close> of a string or \<open>None\<close>\<close>
  "str_optional x = (case x of None \<Rightarrow> ''None'' | Some s \<Rightarrow> s)"

definition run_validator :: "host \<Rightarrow> validator option \<Rightarrow> int \<Rightarrow> state \<Rightarrow> int \<times> state" where
  \<comment> \<open>\<open>if validator and not validator.validate(): failures += validator.failures\<close>\<close>
  "run_validator h validator fails st =
     (case validator of
        None \<Rightarrow> (fails, st)
      | Some v \<Rightarrow>
          (case validate h v st of
             (ok, v', st') \<Rightarrow> (if \<not> ok then fails + failures v' else fails, st')))"

definition vendor_undefined :: "string \<Rightarrow> state \<Rightarrow> int \<times> state" where
  \<comment> \<open>the branch \<open>if not expected_vendor\<close> of \<open>run_validation\<close>\<close>
  "vendor_undefined current_model st =
     (1, add_check_to_report ''GPU_Vendor'' ''FAIL'' (Str ''Vendor Spec'') ''Not Defined in YAML'' []
           (log_msg ([CHR 0x27] @ ''expected_gpu_vendor'' @ [CHR 0x27] @ '' not defined for '' @
                     [CHR 0x27] @ current_model @ [CHR 0x27] @ '' in YAML.'') True st))"

definition vendor_mismatch :: "host \<Rightarrow> string \<Rightarrow> state \<Rightarrow> int \<times> state" where
  \<comment> \<open>the branch \<open>if tool_found != expected_vendor\<close> of \<open>run_validation\<close>\<close>
  "vendor_mismatch h expected_vendor st =
     (0 + 1,
      add_check_to_report ''GPU_Vendor'' ''FAIL'' (Str expected_vendor)
        (str_optional (tool_found h)) []
        (log_msg (''BOM validation FAILED! Expected vendor '' @ [CHR 0x27] @ expected_vendor @
                  [CHR 0x27] @ '', but found '' @ [CHR 0x27] @ str_optional (tool_found h) @
                  [CHR 0x27] @ '' tool (or tool not found).'') True st))"

definition gpu_spec_undefined :: "string \<Rightarrow> state \<Rightarrow> int \<times> state" where
  \<comment> \<open>the branch \<open>if not gpu_spec\<close> of \<open>run_validation\<close>\<close>
  "gpu_spec_undefined current_model st =
     (0 + 1,
      add_check_to_report ''GPU_Spec'' ''FAIL'' (Str ''Spec to exist'') ''Not Defined in YAML'' []
        (log_msg ([CHR 0x27] @ ''gpu_spec'' @ [CHR 0x27] @ '' not defined for '' @ [CHR 0x27] @
                  current_model @ [CHR 0x27] @ '' in YAML.'') True st))"

definition vendor_validated :: "host \<Rightarrow> string \<Rightarrow> model_spec \<Rightarrow> string \<Rightarrow> string \<Rightarrow> state \<Rightarrow> int \<times> state" where
  \<comment> \<open>the \<open>else\<close> branch of \<open>if tool_found != expected_vendor\<close>; \<open>tool\<close> is \<open>tool_found\<close>\<close>
  "vendor_validated h current_model model_spec expected_vendor tool st =
     (let st' = add_check_to_report ''GPU_Vendor'' ''PASS'' (Str expected_vendor) tool []
                  (log_msg (''[PASS] GPU vendor validated (found '' @ tool @ '' tool).'') False st)
      in case gpu_spec model_spec of
           None \<Rightarrow> gpu_spec_undefined current_model st'
         | Some sp \<Rightarrow>
             if sp = [] then gpu_spec_undefined current_model st'
             else (case get_validator expected_vendor sp st' of
                     (validator, st'') \<Rightarrow> run_validator h validator 0 st''))"

definition run_validation :: "host \<Rightarrow> string \<Rightarrow> config \<Rightarrow> state \<Rightarrow> int \<times> state" where
  "run_validation h current_model cfg st =
     (case map_of cfg current_model of
        None \<Rightarrow>
          (1, add_check_to_report ''YAML_Spec'' ''FAIL'' (Str (''Spec for '' @ current_model))
                ''Not Found'' []
                (log_msg (''System model '' @ [CHR 0x27] @ current_model @ [CHR 0x27] @
                          '' is not defined in '' @ CONFIG_FILE_PATH) True st))
      | Some model_spec \<Rightarrow>
         (let st1 = log_msg ''--- [Phase 2: GPU Validation] ---'' False
                      (log_msg (''Successfully loaded spec for '' @ [CHR 0x27] @ current_model @
                                [CHR 0x27]) False st)
          in case expected_gpu_vendor model_spec of
               None \<Rightarrow> vendor_undefined current_model st1
             | Some expected_vendor \<Rightarrow>
                 if expected_vendor = [] then vendor_undefined current_model st1
                 else
                  (let st2 = log_msg (''BOM requires GPU vendor: '' @ expected_vendor) False st1
                   in case tool_found h of
                        None \<Rightarrow> vendor_mismatch h expected_vendor st2
                      | Some tool \<Rightarrow>
                          if tool \<noteq> expected_vendor then vendor_mismatch h expected_vendor st2
                          else vendor_validated h current_model model_spec expected_vendor tool st2)))"

definition dump_report :: "string \<Rightarrow> state \<Rightarrow> state" where
  \<comment> \<open>a successful \<open>json.dump(report_data, f)\<close> into the file at \<open>path\<close>\<close>
  "dump_report path st = st\<lparr>files := (path, report_data st) # files st\<rparr>"

definition write_exception_text :: "write_result \<Rightarrow> string" where
  "write_exception_text r =
     (case r of WriteOk \<Rightarrow> [] | WritePermissionError e \<Rightarrow> e | WriteException e \<Rightarrow> e)"

definition write_report :: "host \<Rightarrow> int \<Rightarrow> state \<Rightarrow> state" where
  "write_report h fails st =
     (let st1 = (if fails = 0
                 then (log_msg ''All checks passed.'' False st)
                        \<lparr>report_data := (report_data st)\<lparr>overall_status := ''PASS''\<rparr>\<rparr>
                 else (log_msg (str_int fails @ '' failure(s) detected.'') False st)
                        \<lparr>report_data := (report_data st)\<lparr>overall_status := ''FAIL''\<rparr>\<rparr>)
      in case write_json h JSON_REPORT_PATH of
           WriteOk \<Rightarrow>
             log_msg (''Successfully wrote JSON report to '' @ JSON_REPORT_PATH) False
               (dump_report JSON_REPORT_PATH st1)
         | WritePermissionError e \<Rightarrow>
             (let local_report_path = ''./validation_report.json'';
                  st2 = log_msg (''Permission denied writing to '' @ JSON_REPORT_PATH @
                                 ''. Try running as root.'') True st1
              in case write_json h local_report_path of
                   WriteOk \<Rightarrow>
                     log_msg (''Wrote fallback report to '' @ local_report_path) False
                       (dump_report local_report_path st2)
                 | r \<Rightarrow>
                     log_msg (''Failed to write fallback report: '' @ write_exception_text r)
                       True st2)
         | WriteException e \<Rightarrow> log_msg (''Failed to write JSON report: '' @ e) True st1)"

definition print_final_result :: "int \<Rightarrow> string \<Rightarrow> state \<Rightarrow> int \<times> state" where
  \<comment> \<open>the result is the argument of \<open>sys.exit\<close>\<close>
  "print_final_result fails sm st =
     (let bar = replicate 30 CHR ''=''
      in if fails = 0
         then (0, print bar
                   (print (''  System '' @ [CHR 0x27] @ sm @ [CHR 0x27] @
                           '' fully matches the Golden YAML standard.'')
                     (print ''  FINAL RESULT: [PASS]'' (print ([CHR 0x0A] @ bar) st))))
         else (1, print bar
                   (print (''  System '' @ [CHR 0x27] @ sm @ [CHR 0x27] @
                           '' does NOT match the Golden YAML standard.'')
                     (print (''  FINAL RESULT: [FAIL] ('' @ str_int fails @ '' failure(s) detected)'')
                       (print ([CHR 0x0A] @ bar) st)))))"

definition main :: "host \<Rightarrow> int \<times> state" where
  \<comment> \<open>the exit status of the process and the state it leaves\<close>
  "main h =
     (case get_system_model h (initial_state (now h)) of
        (None, st1) \<Rightarrow> (1, st1)
      | (Some sm, st1) \<Rightarrow>
          if sm = [] then (1, st1)
          else
           (case load_config h CONFIG_FILE_PATH st1 of
              (None, st2) \<Rightarrow> (1, st2)
            | (Some cfg, st2) \<Rightarrow>
                if cfg = [] then (1, st2)
                else
                 (case run_validation h sm cfg st2 of
                    (fails, st3) \<Rightarrow> print_final_result fails sm (write_report h fails st3))))"

section \<open>Vocabulary of the properties\<close>

abbreviation checks :: "state \<Rightarrow> check_result list" where
  "checks st \<equiv> checks_performed (report_data st)"

definition line_result ::
  "(string \<Rightarrow> string option) \<Rightarrow> string \<Rightarrow> pyval \<Rightarrow> bool \<Rightarrow> nat \<Rightarrow> string \<Rightarrow> check_result" where
  \<comment> \<open>the check result that the loop of \<open>_validate_list_of_items\<close> appends for line \<open>i\<close>\<close>
  "line_result parser_regex check_name expected_value is_vbios i line =
     (case parser_regex line of
        None \<Rightarrow> \<lparr>component = gpu_component i check_name, status = ''FAIL'',
                  expected = expected_value, actual = ''Parse Error'', notes = line\<rparr>
      | Some g \<Rightarrow>
          \<lparr>component = gpu_component i check_name,
           status = (if (if is_vbios then value_contains expected_value (strip g)
                         else Str (strip g) = expected_value) then ''PASS'' else ''FAIL''),
           expected = expected_value, actual = strip g, notes = []\<rparr>)"

abbreviation enum_results ::
  "(string \<Rightarrow> string option) \<Rightarrow> string \<Rightarrow> pyval \<Rightarrow> bool \<Rightarrow> string list \<Rightarrow> check_result list" where
  "enum_results p cn ev isv items \<equiv>
     map (\<lambda>(i, line). line_result p cn ev isv i line) (zip [0..<length items] items)"

definition fail_count :: "check_result list \<Rightarrow> nat" where
  \<comment> \<open>how many check results have the status FAIL\<close>
  "fail_count cs = length (filter (\<lambda>c. status c = ''FAIL'') cs)"

definition same_report :: "report \<Rightarrow> report \<Rightarrow> bool" where
  \<comment> \<open>two reports equal in every field but \<open>report_id\<close>\<close>
  "same_report r r' =
     (overall_status r = overall_status r' \<and> system_model r = system_model r' \<and>
      checks_performed r = checks_performed r')"

definition with_id :: "string \<Rightarrow> state \<Rightarrow> state" where
  \<comment> \<open>the state with another \<open>report_id\<close>, in \<open>report_data\<close> and in the files written\<close>
  "with_id r st =
     st\<lparr>report_data := (report_data st)\<lparr>report_id := r\<rparr>,
        files := map (\<lambda>(p, rp). (p, rp\<lparr>report_id := r\<rparr>)) (files st)\<rparr>"

subsection \<open>Hosts of the test suite\<close>

text \<open>
  The baseline document of the tests, and hosts built as the tests' mocks are: the
  \<open>dmidecode\<close> command answers the system model, one tool is installed, the baseline
  loads, the report can be written.
\<close>

definition test_config :: config where
  "test_config =
     [(''SYS-421GU-TNXR'',
       \<lparr>expected_gpu_vendor = Some ''nvidia'',
        gpu_spec = Some [(''expected_model'', Str ''NVIDIA H100 80GB PCIe''),
                         (''expected_vbios_list'', StrList [''96.00.41.00.01'', ''96.00.40.00.05''])]\<rparr>),
      (''SYS-8125GS-TNHR'',
       \<lparr>expected_gpu_vendor = Some ''amd'',
        gpu_spec = Some [(''expected_model'', Str ''AMD Instinct MI300X''),
                         (''expected_vbios_list'', StrList [''123.456.789.001'', ''123.456.789.000''])]\<rparr>)]"

definition test_host :: "string \<Rightarrow> string \<Rightarrow> (string \<Rightarrow> proc_result) \<Rightarrow> host" where
  "test_host sm tool run =
     \<lparr>subprocess_run = (\<lambda>c. if take 9 c = ''dmidecode'' then Completed sm else run c),
      which = (\<lambda>t. t = tool),
      load_yaml = (\<lambda>p. YamlData test_config),
      write_json = (\<lambda>p. WriteOk),
      now = ''2024-01-01T00:00:00''\<rparr>"

definition nvidia_host :: host where
  "nvidia_host = test_host ''SYS-421GU-TNXR'' ''nvidia-smi''
     (\<lambda>c. if c = ''nvidia-smi -L'' then Completed ''GPU 0: NVIDIA H100 80GB PCIe (UUID: ...)''
          else Completed ''    VBIOS Version                       : 96.00.41.00.01'')"

definition nvidia_failing_host :: host where
  \<comment> \<open>the tool is installed and every call of it exits with an error\<close>
  "nvidia_failing_host = test_host ''SYS-421GU-TNXR'' ''nvidia-smi''
     (\<lambda>c. CalledProcessError ''NVIDIA-SMI has failed'')"

definition nvidia_silent_host :: host where
  \<comment> \<open>the tool is installed and prints nothing\<close>
  "nvidia_silent_host = test_host ''SYS-421GU-TNXR'' ''nvidia-smi'' (\<lambda>c. Completed [])"

definition amd_mismatch_host :: host where
  \<comment> \<open>two model lines and one VBIOS line\<close>
  "amd_mismatch_host = test_host ''SYS-8125GS-TNHR'' ''rocm-smi''
     (\<lambda>c. if c = ''rocm-smi --showproductname''
          then Completed (''Card #0: AMD Instinct MI300X'' @ [CHR 0x0A] @ ''Card #1: AMD Instinct MI300X'')
          else Completed ''Card #0: VBIOS version: 123.456.789.001'')"

definition wrong_vendor_host :: host where
  \<comment> \<open>the baseline declares nvidia and only the AMD tool is installed\<close>
  "wrong_vendor_host = test_host ''SYS-421GU-TNXR'' ''rocm-smi''
     (\<lambda>c. Completed ''Card #0: AMD Instinct MI300X'')"


section \<open>Lemmas on the operations\<close>

lemma checks_print [simp]: "checks (print line st) = checks st"
  by (simp add: print_def)

lemma checks_log_msg [simp]: "checks (log_msg m e st) = checks st"
  by (simp add: log_msg_def)

lemma checks_add_check [simp]:
  "checks (add_check_to_report c s e a n st) =
     checks st @ [\<lparr>component = c, status = s, expected = e, actual = a, notes = n\<rparr>]"
  by (simp add: add_check_to_report_def)

lemma stdout_log_msg [simp]:
  "stdout (log_msg m e st) = stdout st @ [(if e then ''[FAIL]'' else ''[INFO]'') @ '' '' @ m]"
  by (simp add: log_msg_def print_def)

lemma stdout_add_check [simp]: "stdout (add_check_to_report c s e a n st) = stdout st"
  by (simp add: add_check_to_report_def)

lemma fail_count_simps [simp]:
  "fail_count [] = 0"
  "fail_count (cs @ ds) = fail_count cs + fail_count ds"
  "fail_count (c # cs) = (if status c = ''FAIL'' then 1 else 0) + fail_count cs"
  by (simp_all add: fail_count_def)

lemma str_nat_0 [simp]: "str_nat 0 = ''0''"
  by (simp add: str_nat.simps digit_char_def)

lemma run_command_checks [simp]: "checks (snd (run_command h c st)) = checks st"
  by (simp add: run_command_def split: proc_result.split)

lemma run_command_completed:
  "subprocess_run h c = Completed out \<Longrightarrow> run_command h c st = (Some (strip out), st)"
  by (simp add: run_command_def)

lemma validate_item_eq:
  "validate_item p cn ev isv i line (v, st) = (v', st') \<Longrightarrow>
     checks st' = checks st @ [line_result p cn ev isv i line] \<and>
     failures v' = failures v + int (fail_count [line_result p cn ev isv i line]) \<and>
     gpu_count v' = gpu_count v \<and> cls v' = cls v"
  by (auto simp add: validate_item_def line_result_def Let_def split: option.splits if_splits)

lemma validate_items_eq:
  "validate_items p cn ev isv k items (v, st) = (v', st') \<Longrightarrow>
     checks st' = checks st @ map (\<lambda>(i, line). line_result p cn ev isv i line)
                               (zip [k..<k + length items] items) \<and>
     failures v' = failures v + int (fail_count (map (\<lambda>(i, line). line_result p cn ev isv i line)
                               (zip [k..<k + length items] items))) \<and>
     gpu_count v' = gpu_count v \<and> cls v' = cls v"
proof (induction items arbitrary: k v st)
  case Nil
  then show ?case by simp
next
  case (Cons line rest)
  obtain v1 st1 where step: "validate_item p cn ev isv k line (v, st) = (v1, st1)"
    by (cases "validate_item p cn ev isv k line (v, st)")
  with Cons.prems have rest: "validate_items p cn ev isv (Suc k) rest (v1, st1) = (v', st')"
    by simp
  have enum: "zip [k..<k + length (line # rest)] (line # rest) =
      (k, line) # zip [Suc k..<Suc k + length rest] rest"
  proof -
    have "[k..<k + length (line # rest)] = k # [Suc k..<Suc k + length rest]"
      by (subst upt_rec) simp
    then show ?thesis by simp
  qed
  show ?case
    using validate_item_eq [OF step] Cons.IH [OF rest] unfolding enum
    by simp
qed

lemma validate_list_of_items_nonempty:
  assumes "items \<noteq> []" "validate_list_of_items v items cn ev p isv st = (v', st')"
  shows "checks st' = checks st @ enum_results p cn ev isv items"
    and "failures v' = failures v + int (fail_count (enum_results p cn ev isv items))"
    and "gpu_count v' = gpu_count v" and "cls v' = cls v"
  using assms validate_items_eq [of p cn ev isv 0 items v st v' st']
  by (simp_all add: validate_list_of_items_def)

lemma validate_list_of_items_empty:
  assumes "validate_list_of_items v [] cn ev p isv st = (v', st')"
  shows "checks st' = checks st" and "failures v' = failures v + 1"
    and "gpu_count v' = gpu_count v" and "cls v' = cls v"
  using assms by (auto simp add: validate_list_of_items_def)

lemma nvidia_model_regex_empty [simp]: "nvidia_model_regex [] = None"
  by (simp add: nvidia_model_regex_def re_lit_def starts_with_def)

lemmas host_defs = test_host_def nvidia_host_def nvidia_failing_host_def nvidia_silent_host_def
  amd_mismatch_host_def wrong_vendor_host_def

lemma validate_list_of_items_grows:
  assumes "validate_list_of_items v items cn ev p isv st = (v', st')"
  shows "\<exists>new. checks st' = checks st @ new \<and> failures v + int (fail_count new) \<le> failures v'"
proof (cases "items = []")
  case True
  with assms validate_list_of_items_empty(1,2) [of v cn ev p isv st v' st']
  show ?thesis by (intro exI [of _ "[]"]) simp
next
  case False
  from validate_list_of_items_nonempty(1,2) [OF False assms]
  show ?thesis by (intro exI [of _ "enum_results p cn ev isv items"]) simp
qed

lemma run_command_cases:
  obtains st0 where "run_command h c st = (None, st0)" "checks st0 = checks st"
  | out where "run_command h c st = (Some out, st)"
  by (cases "subprocess_run h c") (auto simp add: run_command_def)

lemma nvidia_check_models_grows:
  assumes "nvidia_check_models h v ev st = (v', st')"
  shows "\<exists>new. checks st' = checks st @ new \<and> failures v + int (fail_count new) \<le> failures v'"
proof (cases rule: run_command_cases [of h "''nvidia-smi -L''" "log_msg ''Checking GPU Models...'' False st"])
  case (1 st0)
  with assms show ?thesis
    by (intro exI [of _ "[]"]) (auto simp add: nvidia_check_models_def)
next
  case (2 out)
  with assms validate_list_of_items_grows [of v "split_nl out" "''Model''" ev nvidia_model_regex False
      "log_msg ''Checking GPU Models...'' False st" v' st']
  show ?thesis by (simp add: nvidia_check_models_def)
qed

lemma nvidia_check_vbios_grows:
  assumes "nvidia_check_vbios h v ev st = (v', st')"
  shows "\<exists>new. checks st' = checks st @ new \<and> failures v + int (fail_count new) \<le> failures v'"
proof (cases rule: run_command_cases [of h "''nvidia-smi -q | grep '' @ [CHR 0x27] @ ''VBIOS Version'' @ [CHR 0x27]"
        "log_msg ''Checking GPU VBIOS Versions...'' False st"])
  case (1 st0)
  with assms show ?thesis
    by (intro exI [of _ "[]"]) (auto simp add: nvidia_check_vbios_def)
next
  case (2 out)
  with assms validate_list_of_items_grows [of v "split_nl out" "''VBIOS''" ev nvidia_vbios_regex True
      "log_msg ''Checking GPU VBIOS Versions...'' False st" v' st']
  show ?thesis by (simp add: nvidia_check_vbios_def)
qed

lemma amd_check_models_grows:
  assumes "amd_check_models h v ev st = (v', st')"
  shows "\<exists>new. checks st' = checks st @ new \<and> failures v + int (fail_count new) \<le> failures v'"
proof (cases rule: run_command_cases [of h "''rocm-smi --showproductname''" "log_msg ''Checking GPU Models...'' False st"])
  case (1 st0)
  with assms show ?thesis
    by (intro exI [of _ "[\<lparr>component = ''ROCM_SMI_MODEL'', status = ''FAIL'',
          expected = Str ''Command to run'', actual = ''Command failed'', notes = []\<rparr>]"])
       (auto simp add: amd_check_models_def)
next
  case (2 out)
  with assms validate_list_of_items_grows [of "v\<lparr>gpu_count := length (non_blank_lines out)\<rparr>"
      "non_blank_lines out" "''Model''" ev amd_model_regex False
      "log_msg (''Found '' @ str_nat (length (non_blank_lines out)) @ '' AMD GPU(s).'') False
         (log_msg ''Checking GPU Models...'' False st)" v' st']
  show ?thesis by (simp add: amd_check_models_def Let_def)
qed

lemma amd_check_vbios_grows:
  assumes "amd_check_vbios h v ev st = (v', st')"
  shows "\<exists>new. checks st' = checks st @ new \<and> failures v + int (fail_count new) \<le> failures v'"
proof (cases rule: run_command_cases [of h "''rocm-smi --showvbios''" "log_msg ''Checking GPU VBIOS Versions...'' False st"])
  case (1 st0)
  with assms show ?thesis
    by (intro exI [of _ "[\<lparr>component = ''ROCM_SMI_VBIOS'', status = ''FAIL'',
          expected = Str ''Command to run'', actual = ''Command failed'', notes = []\<rparr>]"])
       (auto simp add: amd_check_vbios_def)
next
  case (2 out)
  show ?thesis
  proof (cases "length (non_blank_lines out) \<noteq> gpu_count v")
    case True
    with 2 assms show ?thesis
      by (intro exI [of _ "[]"]) (auto simp add: amd_check_vbios_def Let_def)
  next
    case False
    with 2 assms validate_list_of_items_grows [of v "non_blank_lines out" "''VBIOS''" ev
        amd_vbios_regex True "log_msg ''Checking GPU VBIOS Versions...'' False st" v' st']
    show ?thesis by (simp add: amd_check_vbios_def Let_def)
  qed
qed

lemma check_models_grows:
  assumes "check_models h v ev st = (v', st')"
  shows "\<exists>new. checks st' = checks st @ new \<and> failures v + int (fail_count new) \<le> failures v'"
proof (cases "cls v")
  case NvidiaValidator
  with assms nvidia_check_models_grows show ?thesis by (simp add: check_models_def)
next
  case AmdValidator
  with assms amd_check_models_grows show ?thesis by (simp add: check_models_def)
next
  case IntelValidator
  with assms show ?thesis
    by (intro exI [of _ "[\<lparr>component = ''Intel_Check'', status = ''SKIP'', expected = Str ''N/A'',
          actual = ''N/A'', notes = ''Not Implemented''\<rparr>]"])
       (auto simp add: check_models_def intel_check_models_def)
qed

lemma check_vbios_grows:
  assumes "check_vbios h v ev st = (v', st')"
  shows "\<exists>new. checks st' = checks st @ new \<and> failures v + int (fail_count new) \<le> failures v'"
proof (cases "cls v")
  case NvidiaValidator
  with assms nvidia_check_vbios_grows show ?thesis by (simp add: check_vbios_def)
next
  case AmdValidator
  with assms amd_check_vbios_grows show ?thesis by (simp add: check_vbios_def)
next
  case IntelValidator
  with assms show ?thesis
    by (intro exI [of _ "[]"]) (auto simp add: check_vbios_def intel_check_vbios_def)
qed

lemma missing_key_grows:
  assumes "missing_key v k st = (ok, v', st')"
  shows "\<not> ok \<and> failures v' = failures v + 1 \<and>
         (\<exists>new. checks st' = checks st @ new \<and> failures v + int (fail_count new) \<le> failures v')"
  using assms by (auto simp add: missing_key_def)

lemma validate_grows:
  assumes "validate h v st = (ok, v', st')"
  shows "\<exists>new. checks st' = checks st @ new \<and> failures v + int (fail_count new) \<le> failures v'"
    and "0 \<le> failures v \<Longrightarrow> ok = (failures v' = 0)"
proof -
  let ?st1 = "log_msg (''--- Starting '' @ vendor_name v @ '' GPU Validation ---'') False st"
  show "\<exists>new. checks st' = checks st @ new \<and> failures v + int (fail_count new) \<le> failures v'"
  proof (cases "map_of (spec v) ''expected_model''")
    case None
    with assms have "missing_key v ''expected_model'' ?st1 = (ok, v', st')"
      by (simp add: validate_def)
    from missing_key_grows [OF this] obtain new where
      "checks st' = checks ?st1 @ new" "failures v + int (fail_count new) \<le> failures v'"
      by blast
    then show ?thesis by (intro exI [of _ new]) simp
  next
    case (Some em)
    show ?thesis
    proof (cases "map_of (spec v) ''expected_vbios_list''")
      case None
      with Some assms have "missing_key v ''expected_vbios_list'' ?st1 = (ok, v', st')"
        by (simp add: validate_def)
      from missing_key_grows [OF this] obtain new where
        "checks st' = checks ?st1 @ new" "failures v + int (fail_count new) \<le> failures v'"
        by blast
      then show ?thesis by (intro exI [of _ new]) simp
    next
      case (Some el)
      let ?st2 = "log_msg (''  - VBIOS (any of): '' @ join_value '', '' el) False
                    (log_msg (''  - Model: '' @ format_value em) False
                      (log_msg ''Golden YAML loaded. Verifying against:'' False ?st1))"
      obtain v1 st3 where m: "check_models h v em ?st2 = (v1, st3)"
        by (cases "check_models h v em ?st2")
      obtain v2 st4 where b: "check_vbios h v1 el st3 = (v2, st4)"
        by (cases "check_vbios h v1 el st3")
      from assms \<open>map_of (spec v) ''expected_model'' = Some em\<close> Some m b
      have r: "v' = v2" "checks st' = checks st4"
        by (auto simp add: validate_def Let_def)
      from check_models_grows [OF m] obtain n1 where
        n1: "checks st3 = checks st @ n1" "failures v + int (fail_count n1) \<le> failures v1"
        by auto
      from check_vbios_grows [OF b] obtain n2 where
        n2: "checks st4 = checks st3 @ n2" "failures v1 + int (fail_count n2) \<le> failures v2"
        by auto
      from r n1 n2 show ?thesis
        by (intro exI [of _ "n1 @ n2"]) simp
    qed
  qed
  then show "0 \<le> failures v \<Longrightarrow> ok = (failures v' = 0)"
    using assms
    by (auto simp add: validate_def missing_key_def Let_def split: option.splits prod.splits)
qed

lemma run_validator_grows:
  assumes "run_validator h validator f st = (f', st')"
    and "\<And>v. validator = Some v \<Longrightarrow> failures v = 0"
  shows "\<exists>new. checks st' = checks st @ new \<and> f + int (fail_count new) \<le> f'"
proof (cases validator)
  case None
  with assms show ?thesis
    by (intro exI [of _ "[]"]) (simp add: run_validator_def)
next
  case (Some v)
  obtain ok v' st1 where val: "validate h v st = (ok, v', st1)"
    by (cases "validate h v st") auto
  from assms(2) Some have zero: "failures v = 0" by simp
  from validate_grows(1) [OF val] obtain new where
    new: "checks st1 = checks st @ new" "failures v + int (fail_count new) \<le> failures v'"
    by blast
  from validate_grows(2) [OF val] zero have ok: "ok = (failures v' = 0)" by simp
  from assms(1) Some val have "st' = st1" "f' = (if \<not> ok then f + failures v' else f)"
    by (simp_all add: run_validator_def)
  with new zero ok show ?thesis
    by (intro exI [of _ new]) auto
qed

lemma get_validator_new:
  "get_validator ev sp st = (Some v, st') \<Longrightarrow> failures v = 0 \<and> st' = st"
  by (auto simp add: get_validator_def new_validator_def split: if_splits)

lemma get_validator_checks:
  "get_validator ev sp st = (validator, st') \<Longrightarrow> checks st' = checks st"
  by (auto simp add: get_validator_def split: if_splits)

lemma vendor_validated_grows:
  assumes "vendor_validated h sm ms ev tool st = (f, st')"
  shows "\<exists>new. checks st' = checks st @ new \<and> int (fail_count new) \<le> f"
proof -
  let ?pass = "\<lparr>component = ''GPU_Vendor'', status = ''PASS'', expected = Str ev, actual = tool, notes = []\<rparr>"
  let ?st1 = "add_check_to_report ''GPU_Vendor'' ''PASS'' (Str ev) tool []
                (log_msg (''[PASS] GPU vendor validated (found '' @ tool @ '' tool).'') False st)"
  have base: "checks ?st1 = checks st @ [?pass]" by simp
  show ?thesis
  proof (cases "gpu_spec ms = None \<or> gpu_spec ms = Some []")
    case True
    with assms have "gpu_spec_undefined sm ?st1 = (f, st')"
      by (auto simp add: vendor_validated_def Let_def)
    then show ?thesis
      by (intro exI [of _ "[?pass, \<lparr>component = ''GPU_Spec'', status = ''FAIL'',
            expected = Str ''Spec to exist'', actual = ''Not Defined in YAML'', notes = []\<rparr>]"])
         (auto simp add: gpu_spec_undefined_def)
  next
    case False
    then obtain sp where sp: "gpu_spec ms = Some sp" "sp \<noteq> []" by auto
    obtain validator st2 where gv: "get_validator ev sp ?st1 = (validator, st2)"
      by (cases "get_validator ev sp ?st1")
    with assms sp have rv: "run_validator h validator 0 st2 = (f, st')"
      by (simp add: vendor_validated_def Let_def)
    have "checks st2 = checks ?st1"
      using get_validator_checks [OF gv] .
    moreover from run_validator_grows [OF rv] get_validator_new gv obtain new where
      "checks st' = checks st2 @ new" "0 + int (fail_count new) \<le> f"
      by blast
    ultimately show ?thesis
      by (intro exI [of _ "?pass # new"]) simp
  qed
qed

lemma run_validation_grows:
  assumes "run_validation h sm cfg st = (f, st')"
  shows "\<exists>new. checks st' = checks st @ new \<and> int (fail_count new) \<le> f"
proof (cases "map_of cfg sm")
  case None
  with assms show ?thesis
    by (intro exI [of _ "[\<lparr>component = ''YAML_Spec'', status = ''FAIL'',
          expected = Str (''Spec for '' @ sm), actual = ''Not Found'', notes = []\<rparr>]"])
       (auto simp add: run_validation_def)
next
  case (Some ms)
  let ?st1 = "log_msg ''--- [Phase 2: GPU Validation] ---'' False
                (log_msg (''Successfully loaded spec for '' @ [CHR 0x27] @ sm @ [CHR 0x27]) False st)"
  show ?thesis
  proof (cases "expected_gpu_vendor ms = None \<or> expected_gpu_vendor ms = Some []")
    case True
    with assms Some have "vendor_undefined sm ?st1 = (f, st')"
      by (auto simp add: run_validation_def Let_def)
    then show ?thesis
      by (intro exI [of _ "[\<lparr>component = ''GPU_Vendor'', status = ''FAIL'',
            expected = Str ''Vendor Spec'', actual = ''Not Defined in YAML'', notes = []\<rparr>]"])
         (auto simp add: vendor_undefined_def)
  next
    case False
    then obtain ev where ev: "expected_gpu_vendor ms = Some ev" "ev \<noteq> []" by auto
    let ?st2 = "log_msg (''BOM requires GPU vendor: '' @ ev) False ?st1"
    show ?thesis
    proof (cases "tool_found h = Some ev")
      case True
      with assms Some ev have "vendor_validated h sm ms ev ev ?st2 = (f, st')"
        by (simp add: run_validation_def Let_def)
      from vendor_validated_grows [OF this] show ?thesis by simp
    next
      case False
      with assms Some ev have "vendor_mismatch h ev ?st2 = (f, st')"
        by (auto simp add: run_validation_def Let_def split: option.splits)
      then show ?thesis
        by (intro exI [of _ "[\<lparr>component = ''GPU_Vendor'', status = ''FAIL'',
              expected = Str ev, actual = str_optional (tool_found h), notes = []\<rparr>]"])
           (auto simp add: vendor_mismatch_def)
    qed
  qed
qed

lemma get_system_model_some:
  assumes "get_system_model h st = (Some sm, st')"
  shows "sm \<noteq> []" and "checks st' = checks st" and "system_model (report_data st') = sm"
proof -
  let ?c = "''dmidecode -s system-product-name | tr -d '' @ [CHR 0x27] @ '' '' @ [CHR 0x27]"
  let ?st0 = "log_msg ''--- [Phase 1: BOM Validation] ---'' False st"
  have "sm \<noteq> [] \<and> checks st' = checks st \<and> system_model (report_data st') = sm"
  proof (cases rule: run_command_cases [of h ?c ?st0])
    case (1 st0)
    with assms show ?thesis by (simp add: get_system_model_def Let_def)
  next
    case (2 out)
    with assms show ?thesis
      by (cases "out = []") (auto simp add: get_system_model_def Let_def log_msg_def print_def)
  qed
  then show "sm \<noteq> []" and "checks st' = checks st" and "system_model (report_data st') = sm"
    by simp_all
qed

lemma load_config_some:
  "load_config h p st = (Some cfg, st') \<Longrightarrow> st' = st \<and> load_yaml h p = YamlData cfg"
  by (auto simp add: load_config_def split: yaml_result.splits)

lemma report_log_msg [simp]: "report_data (log_msg m e st) = report_data st"
  by (simp add: log_msg_def print_def)

lemma report_print [simp]: "report_data (print l st) = report_data st"
  by (simp add: print_def)

lemma write_report_report:
  "report_data (write_report h f st) =
     (report_data st)\<lparr>overall_status := (if f = 0 then ''PASS'' else ''FAIL'')\<rparr>"
  by (simp add: write_report_def dump_report_def Let_def split: write_result.split)

lemma print_final_result_eq:
  "fst (print_final_result f sm st) = (if f = 0 then 0 else 1)"
  "report_data (snd (print_final_result f sm st)) = report_data st"
  by (simp_all add: print_final_result_def Let_def)

lemma main_finalized:
  assumes "get_system_model h (initial_state (now h)) = (Some sm, st1)"
    and "load_config h CONFIG_FILE_PATH st1 = (Some cfg, st2)"
    and "cfg \<noteq> []"
    and "run_validation h sm cfg st2 = (f, st3)"
  shows "main h = print_final_result f sm (write_report h f st3)"
  using assms get_system_model_some(1) [OF assms(1)]
  by (simp add: main_def)

lemma main_run:
  assumes "subprocess_run h (''dmidecode -s system-product-name | tr -d '' @ [CHR 0x27] @ '' '' @ [CHR 0x27]) = Completed out"
    and "strip out \<noteq> []"
    and "load_yaml h CONFIG_FILE_PATH = YamlData cfg"
    and "cfg \<noteq> []"
  shows "checks (snd (get_system_model h (initial_state (now h)))) = []"
    and "main h =
           (case run_validation h (strip out) cfg (snd (get_system_model h (initial_state (now h)))) of
              (f, st3) \<Rightarrow> print_final_result f (strip out) (write_report h f st3))"
proof -
  let ?st0 = "log_msg ''--- [Phase 1: BOM Validation] ---'' False (initial_state (now h))"
  let ?st2 = "(log_msg (''Detected system model: '' @ strip out) False ?st0)
                \<lparr>report_data := (report_data ?st0)\<lparr>system_model := strip out\<rparr>\<rparr>"
  have g: "get_system_model h (initial_state (now h)) = (Some (strip out), ?st2)"
    using assms(1,2) by (simp add: get_system_model_def run_command_completed Let_def)
  have l: "load_config h CONFIG_FILE_PATH ?st2 = (Some cfg, ?st2)"
    using assms(3) by (simp add: load_config_def)
  show "checks (snd (get_system_model h (initial_state (now h)))) = []"
    unfolding g by (simp add: initial_state_def initial_report_def log_msg_def print_def)
  show "main h =
           (case run_validation h (strip out) cfg (snd (get_system_model h (initial_state (now h)))) of
              (f, st3) \<Rightarrow> print_final_result f (strip out) (write_report h f st3))"
    unfolding g using g l assms(2,4) by (simp add: main_def)
qed

lemma str_nat_digit: "\<exists>d ds. str_nat n = d # ds \<and> d \<in> set ''0123456789''"
proof (induction n rule: str_nat.induct)
  case (1 n)
  show ?case
  proof (cases "n < 10")
    case True
    then have "digit_char n \<in> set ''0123456789''"
      unfolding digit_char_def by (intro nth_mem) simp
    with True show ?thesis by (subst str_nat.simps) simp
  next
    case False
    with 1 obtain d ds where "str_nat (n div 10) = d # ds" "d \<in> set ''0123456789''" by blast
    with False show ?thesis by (subst str_nat.simps) simp
  qed
qed

lemma gpu_vendor_not_indexed: "''GPU_Vendor'' \<noteq> gpu_component i cn"
proof -
  obtain d ds where "str_nat i = d # ds" "d \<in> set ''0123456789''"
    using str_nat_digit by blast
  then show ?thesis by (auto simp add: gpu_component_def)
qed

lemma run_validation_mismatch:
  assumes "map_of cfg sm = Some ms" "expected_gpu_vendor ms = Some ev" "ev \<noteq> []"
    and "tool_found h \<noteq> Some ev"
  shows "run_validation h sm cfg st =
     vendor_mismatch h ev (log_msg (''BOM requires GPU vendor: '' @ ev) False
       (log_msg ''--- [Phase 2: GPU Validation] ---'' False
         (log_msg (''Successfully loaded spec for '' @ [CHR 0x27] @ sm @ [CHR 0x27]) False st)))"
  using assms by (auto simp add: run_validation_def Let_def split: option.splits)

lemma strip_sys_nvidia: "strip ''SYS-421GU-TNXR'' = ''SYS-421GU-TNXR''"
  by (simp add: strip_def is_space_def)

lemma strip_sys_amd: "strip ''SYS-8125GS-TNHR'' = ''SYS-8125GS-TNHR''"
  by (simp add: strip_def is_space_def)

lemma fail_count_zero: "fail_count cs = 0 \<longleftrightarrow> (\<forall>c \<in> set cs. status c \<noteq> ''FAIL'')"
  by (simp add: fail_count_def filter_empty_conv)

lemmas run_defs = main_def get_system_model_def load_config_def run_validation_def
  vendor_validated_def vendor_mismatch_def vendor_undefined_def gpu_spec_undefined_def
  get_validator_def run_validator_def validate_def missing_key_def check_models_def
  check_vbios_def amd_check_models_def amd_check_vbios_def nvidia_check_models_def
  nvidia_check_vbios_def intel_check_models_def intel_check_vbios_def
  validate_list_of_items_def validate_item_def run_command_def write_report_def
  print_final_result_def dump_report_def tool_found_def new_validator_def
  initial_state_def initial_report_def test_config_def CONFIG_FILE_PATH_def JSON_REPORT_PATH_def
  log_msg_def print_def add_check_to_report_def

lemma amd_mismatch_lines:
  "non_blank_lines (strip (''Card #0: AMD Instinct MI300X'' @ [CHR 0x0A] @ ''Card #1: AMD Instinct MI300X'')) =
     [''Card #0: AMD Instinct MI300X'', ''Card #1: AMD Instinct MI300X'']"
  "non_blank_lines (strip ''Card #0: VBIOS version: 123.456.789.001'') =
     [''Card #0: VBIOS version: 123.456.789.001'']"
  by code_simp+

lemma amd_mismatch_models:
  "amd_model_regex ''Card #0: AMD Instinct MI300X'' = Some ''AMD Instinct MI300X''"
  "amd_model_regex ''Card #1: AMD Instinct MI300X'' = Some ''AMD Instinct MI300X''"
  "strip ''AMD Instinct MI300X'' = ''AMD Instinct MI300X''"
  by code_simp+


lemma tool_found_known:
  "tool_found h = Some t \<Longrightarrow> t = ''nvidia'' \<or> t = ''amd'' \<or> t = ''intel''"
  by (auto simp add: tool_found_def split: if_splits)

lemma factory_reached_with_known_vendor:
  "tool_found h = Some ev \<Longrightarrow> fst (get_validator ev sp st) \<noteq> None"
  using tool_found_known [of h ev] by (auto simp add: get_validator_def)

lemma run_command_failed:
  assumes "\<forall>out. subprocess_run h c \<noteq> Completed out"
  obtains st0 where "run_command h c st = (None, st0)" and "checks st0 = checks st"
  using assms by (cases "subprocess_run h c") (auto simp add: run_command_def)

lemma amd_command_failure_reported:
  assumes "\<forall>out. subprocess_run h ''rocm-smi --showproductname'' \<noteq> Completed out"
  shows "failures (fst (amd_check_models h v expected_model st)) = failures v + 1 \<and>
         checks (snd (amd_check_models h v expected_model st)) = checks st @
           [\<lparr>component = ''ROCM_SMI_MODEL'', status = ''FAIL'', expected = Str ''Command to run'',
             actual = ''Command failed'', notes = []\<rparr>]"
proof -
  from assms obtain st0 where
    "run_command h ''rocm-smi --showproductname'' (log_msg ''Checking GPU Models...'' False st) = (None, st0)"
    "checks st0 = checks (log_msg ''Checking GPU Models...'' False st)"
    by (rule run_command_failed)
  then show ?thesis by (simp add: amd_check_models_def)
qed

lemma grows_prefix:
  "\<exists>new. checks st' = checks st @ new \<and> P new \<Longrightarrow> prefix (checks st) (checks st')"
  by (auto simp add: prefix_def)

lemma grows_mono:
  "\<exists>new. checks st' = checks st @ new \<and> failures v + int (fail_count new) \<le> failures v' \<Longrightarrow>
     failures v \<le> failures v'"
  by auto

lemma get_system_model_prefix: "prefix (checks st) (checks (snd (get_system_model h st)))"
proof (cases rule: run_command_cases [of h "''dmidecode -s system-product-name | tr -d '' @ [CHR 0x27] @ '' '' @ [CHR 0x27]"
        "log_msg ''--- [Phase 1: BOM Validation] ---'' False st"])
  case (1 st0)
  then show ?thesis by (simp add: get_system_model_def Let_def)
next
  case (2 out)
  then show ?thesis
    by (cases "out = []") (simp_all add: get_system_model_def Let_def log_msg_def print_def)
qed

lemma load_config_prefix: "prefix (checks st) (checks (snd (load_config h path st)))"
  by (simp add: load_config_def split: yaml_result.split)

lemma write_report_prefix: "prefix (checks st) (checks (write_report h f st))"
  by (simp add: write_report_report)

lemma print_final_result_prefix: "prefix (checks st) (checks (snd (print_final_result f sm st)))"
  by (simp add: print_final_result_eq)

lemma with_id_print: "print l (with_id r st) = with_id r (print l st)"
  by (simp add: print_def with_id_def)

lemma with_id_log_msg: "log_msg m e (with_id r st) = with_id r (log_msg m e st)"
  by (simp add: log_msg_def with_id_print)

lemma with_id_add_check:
  "add_check_to_report c s e a n (with_id r st) = with_id r (add_check_to_report c s e a n st)"
  by (simp add: add_check_to_report_def with_id_def)

lemma with_id_run_command:
  "run_command h c (with_id r st) = apsnd (with_id r) (run_command h c st)"
  by (simp add: run_command_def with_id_log_msg split: proc_result.split)

lemma with_id_validate_item:
  "validate_item p cn ev isv i line (v, with_id r st) =
     apsnd (with_id r) (validate_item p cn ev isv i line (v, st))"
  by (simp add: validate_item_def with_id_log_msg with_id_add_check Let_def split: option.split)

lemma with_id_validate_items:
  "validate_items p cn ev isv i items (v, with_id r st) =
     apsnd (with_id r) (validate_items p cn ev isv i items (v, st))"
proof (induction items arbitrary: i v st)
  case Nil
  then show ?case by simp
next
  case (Cons line rest)
  obtain v1 st1 where step: "validate_item p cn ev isv i line (v, st) = (v1, st1)"
    by (cases "validate_item p cn ev isv i line (v, st)")
  then have "validate_item p cn ev isv i line (v, with_id r st) = (v1, with_id r st1)"
    by (simp add: with_id_validate_item)
  with step Cons.IH [of "Suc i" v1 st1] show ?case by simp
qed

lemma with_id_validate_list_of_items:
  "validate_list_of_items v items cn ev p isv (with_id r st) =
     apsnd (with_id r) (validate_list_of_items v items cn ev p isv st)"
  by (simp add: validate_list_of_items_def with_id_log_msg with_id_validate_items)

lemma apsnd_case: "(case apsnd f p of (a, b) \<Rightarrow> g a b) = (case p of (a, b) \<Rightarrow> g a (f b))"
  by (cases p) simp

lemmas with_id_simps = with_id_print with_id_log_msg with_id_add_check with_id_run_command
  with_id_validate_list_of_items apsnd_case

lemma with_id_check_models:
  "check_models h v ev (with_id r st) = apsnd (with_id r) (check_models h v ev st)"
  by (cases "cls v")
     (simp_all add: check_models_def nvidia_check_models_def amd_check_models_def
        intel_check_models_def with_id_simps Let_def split: prod.split option.split)

lemma with_id_check_vbios:
  "check_vbios h v ev (with_id r st) = apsnd (with_id r) (check_vbios h v ev st)"
  by (cases "cls v")
     (simp_all add: check_vbios_def nvidia_check_vbios_def amd_check_vbios_def
        intel_check_vbios_def with_id_simps Let_def split: prod.split option.split)

lemma with_id_validate:
  "validate h v (with_id r st) = apsnd (apsnd (with_id r)) (validate h v st)"
  by (simp add: validate_def missing_key_def with_id_simps with_id_check_models
        with_id_check_vbios Let_def split: option.split prod.split)

lemma with_id_run_validator:
  "run_validator h validator f (with_id r st) = apsnd (with_id r) (run_validator h validator f st)"
  by (simp add: run_validator_def with_id_validate split: option.split prod.split)

lemma with_id_get_validator:
  "get_validator ev sp (with_id r st) = apsnd (with_id r) (get_validator ev sp st)"
  by (simp add: get_validator_def with_id_simps)

lemma with_id_run_validation:
  "run_validation h sm cfg (with_id r st) = apsnd (with_id r) (run_validation h sm cfg st)"
  by (simp add: run_validation_def vendor_undefined_def vendor_mismatch_def vendor_validated_def
        gpu_spec_undefined_def with_id_simps with_id_get_validator with_id_run_validator Let_def
        split: option.split prod.split)

lemma with_id_get_system_model:
  "get_system_model h (with_id r st) = apsnd (with_id r) (get_system_model h st)"
proof -
  let ?c = "''dmidecode -s system-product-name | tr -d '' @ [CHR 0x27] @ '' '' @ [CHR 0x27]"
  obtain cm st0 where rc:
    "run_command h ?c (log_msg ''--- [Phase 1: BOM Validation] ---'' False st) = (cm, st0)"
    by (cases "run_command h ?c (log_msg ''--- [Phase 1: BOM Validation] ---'' False st)")
  then have rc': "run_command h ?c (log_msg ''--- [Phase 1: BOM Validation] ---'' False (with_id r st)) =
      (cm, with_id r st0)"
    by (simp add: with_id_simps)
  show ?thesis
    unfolding get_system_model_def rc rc'
    by (cases cm) (simp_all add: Let_def with_id_add_check with_id_log_msg,
                   simp_all add: with_id_def log_msg_def print_def)
qed

lemma with_id_load_config:
  "load_config h path (with_id r st) = apsnd (with_id r) (load_config h path st)"
  by (simp add: load_config_def with_id_simps split: yaml_result.split)

lemma with_id_dump_report: "dump_report path (with_id r st) = with_id r (dump_report path st)"
  by (simp add: dump_report_def with_id_def)

lemma with_id_write_report: "write_report h f (with_id r st) = with_id r (write_report h f st)"
  by (simp add: write_report_def Let_def with_id_def log_msg_def print_def dump_report_def
        split: write_result.split)

lemma with_id_print_final_result:
  "print_final_result f sm (with_id r st) = apsnd (with_id r) (print_final_result f sm st)"
  by (simp add: print_final_result_def with_id_simps Let_def)

lemma now_run_command: "run_command (h\<lparr>now := t\<rparr>) = run_command h"
  by (intro ext) (simp add: run_command_def)

lemma now_check_models: "check_models (h\<lparr>now := t\<rparr>) = check_models h"
  by (intro ext)
     (simp add: check_models_def nvidia_check_models_def amd_check_models_def
        intel_check_models_def now_run_command split: validator_class.split)

lemma now_check_vbios: "check_vbios (h\<lparr>now := t\<rparr>) = check_vbios h"
  by (intro ext)
     (simp add: check_vbios_def nvidia_check_vbios_def amd_check_vbios_def
        intel_check_vbios_def now_run_command split: validator_class.split)

lemma now_validate: "validate (h\<lparr>now := t\<rparr>) = validate h"
  unfolding validate_def now_check_models now_check_vbios ..

lemma now_run_validator: "run_validator (h\<lparr>now := t\<rparr>) = run_validator h"
  unfolding run_validator_def now_validate ..

lemma now_tool_found: "tool_found (h\<lparr>now := t\<rparr>) = tool_found h"
  by (simp add: tool_found_def)

lemma now_run_validation: "run_validation (h\<lparr>now := t\<rparr>) = run_validation h"
  unfolding run_validation_def vendor_validated_def vendor_mismatch_def now_tool_found
    now_run_validator ..

lemma now_get_system_model: "get_system_model (h\<lparr>now := t\<rparr>) = get_system_model h"
  unfolding get_system_model_def now_run_command ..

lemma now_load_config: "load_config (h\<lparr>now := t\<rparr>) = load_config h"
  by (intro ext) (simp add: load_config_def)

lemma now_write_json: "write_json (h\<lparr>now := t\<rparr>) = write_json h"
  by simp

lemma now_write_report: "write_report (h\<lparr>now := t\<rparr>) = write_report h"
  unfolding write_report_def now_write_json ..

lemma initial_state_with_id:
  "initial_state t = with_id (''validation_report_'' @ t) (initial_state t')"
  by (simp add: initial_state_def initial_report_def with_id_def)

lemma main_now:
  "main (h\<lparr>now := t\<rparr>) = apsnd (with_id (''validation_report_'' @ t)) (main h)"
proof -
  have "initial_state (now (h\<lparr>now := t\<rparr>)) = with_id (''validation_report_'' @ t) (initial_state (now h))"
    using initial_state_with_id [of t "now h"] by simp
  then show ?thesis
    by (simp add: main_def now_get_system_model now_load_config now_run_validation now_write_report
          with_id_get_system_model with_id_load_config with_id_run_validation with_id_write_report
          with_id_print_final_result apsnd_case split: option.split prod.split)
qed

lemma with_id_same:
  "same_report (report_data (with_id r st)) (report_data st)"
  "stdout (with_id r st) = stdout st"
  "list_all2 (\<lambda>(p, rp) (p', rp'). p = p' \<and> same_report rp rp') (files (with_id r st)) (files st)"
  by (simp_all add: with_id_def same_report_def list_all2_map1 list_all2_same split: prod.split)

lemma nvidia_host_lines:
  "split_nl (strip ''GPU 0: NVIDIA H100 80GB PCIe (UUID: ...)'') = [''GPU 0: NVIDIA H100 80GB PCIe (UUID: ...)'']"
  "split_nl (strip ''    VBIOS Version                       : 96.00.41.00.01'') =
     [''VBIOS Version                       : 96.00.41.00.01'']"
  "nvidia_model_regex ''GPU 0: NVIDIA H100 80GB PCIe (UUID: ...)'' = Some ''NVIDIA H100 80GB PCIe''"
  "nvidia_vbios_regex ''VBIOS Version                       : 96.00.41.00.01'' = Some ''96.00.41.00.01''"
  "strip ''NVIDIA H100 80GB PCIe'' = ''NVIDIA H100 80GB PCIe''"
  "strip ''96.00.41.00.01'' = ''96.00.41.00.01''"
  by code_simp+

lemma nvidia_host_passes: "overall_status (report_data (snd (main nvidia_host))) = ''PASS''"
  using nvidia_host_lines(1,2)
  by (simp add: run_defs host_defs strip_sys_nvidia nvidia_host_lines(3-6) Let_def)

section \<open>The claims\<close>

text \<open>
  C4. Called with an empty list of items, \<open>_validate_list_of_items\<close> records one failure,
  the console line naming the check whose command returned no items, adds 1 to the
  validator's failure counter, and appends no check result: the loop over the lines is
  not entered.
\<close>

theorem empty_items_one_failure:
  "validate_list_of_items v [] check_name expected_value parser_regex is_vbios st = (v', st') \<Longrightarrow>
     failures v' = failures v + 1 \<and>
     checks st' = checks st \<and>
     stdout st' = stdout st @ [''[FAIL]   [FAIL] Command returned no items for '' @ check_name @ ''.''] \<and>
     st' = log_msg (''  [FAIL] Command returned no items for '' @ check_name @ ''.'') True st \<and>
     v' = v\<lparr>failures := failures v + 1\<rparr>"
  by (auto simp add: validate_list_of_items_def)

theorem empty_items_one_failure_witness:
  "failures (fst (validate_list_of_items (new_validator AmdValidator []) [] ''Model'' (Str ''X'')
      amd_model_regex False (initial_state ''t''))) = 1 \<and>
   checks (snd (validate_list_of_items (new_validator AmdValidator []) [] ''Model'' (Str ''X'')
      amd_model_regex False (initial_state ''t''))) = [] \<and>
   stdout (snd (validate_list_of_items (new_validator AmdValidator []) [] ''Model'' (Str ''X'')
      amd_model_regex False (initial_state ''t''))) =
     [''[FAIL]   [FAIL] Command returned no items for Model.'']"
  using empty_items_one_failure [OF prod.collapse [symmetric], of "new_validator AmdValidator []"
      "''Model''" "Str ''X''" amd_model_regex False "initial_state ''t''"]
  by (simp add: new_validator_def initial_state_def initial_report_def)

text \<open>
  C5. Called with a non-empty list of items, \<open>_validate_list_of_items\<close> appends one check
  result per line, in the order of the lines: the result at position \<open>i\<close> is the one of
  line \<open>i\<close>, and its component is \<open>GPU_<i>_<check_name>\<close> with \<open>i\<close> counted from 0.
\<close>

theorem one_result_per_line:
  assumes "items \<noteq> []"
    and "validate_list_of_items v items check_name expected_value parser_regex is_vbios st = (v', st')"
  shows "\<exists>new. checks st' = checks st @ new \<and> length new = length items \<and>
           (\<forall>i < length items.
              component (new ! i) = ''GPU_'' @ str_nat i @ ''_'' @ check_name \<and>
              new ! i = line_result parser_regex check_name expected_value is_vbios i (items ! i))"
proof -
  let ?new = "enum_results parser_regex check_name expected_value is_vbios items"
  have "checks st' = checks st @ ?new"
    using validate_list_of_items_nonempty(1) [OF assms] .
  moreover have "length ?new = length items" by simp
  moreover have "\<forall>i < length items.
      component (?new ! i) = ''GPU_'' @ str_nat i @ ''_'' @ check_name \<and>
      ?new ! i = line_result parser_regex check_name expected_value is_vbios i (items ! i)"
    by (simp add: line_result_def gpu_component_def split: option.split)
  ultimately show ?thesis by blast
qed

theorem one_result_per_line_witness:
  "[''GPU 0: A (UUID: x)'', ''junk''] \<noteq> [] \<and>
   (\<exists>new. checks (snd (validate_list_of_items (new_validator NvidiaValidator [])
              [''GPU 0: A (UUID: x)'', ''junk''] ''Model'' (Str ''A'') nvidia_model_regex False
              (initial_state ''t''))) = checks (initial_state ''t'') @ new \<and>
          length new = 2 \<and>
          component (new ! 0) = ''GPU_0_Model'' \<and> component (new ! 1) = ''GPU_1_Model'')"
proof -
  have ne: "[''GPU 0: A (UUID: x)'', ''junk''] \<noteq> []" by simp
  obtain new where eq:
    "checks (snd (validate_list_of_items (new_validator NvidiaValidator [])
              [''GPU 0: A (UUID: x)'', ''junk''] ''Model'' (Str ''A'') nvidia_model_regex False
              (initial_state ''t''))) = checks (initial_state ''t'') @ new"
    and len: "length new = length [''GPU 0: A (UUID: x)'', ''junk'']"
    and each: "\<forall>i < length [''GPU 0: A (UUID: x)'', ''junk''].
        component (new ! i) = ''GPU_'' @ str_nat i @ ''_'' @ ''Model'' \<and>
        new ! i = line_result nvidia_model_regex ''Model'' (Str ''A'') False i
                    ([''GPU 0: A (UUID: x)'', ''junk''] ! i)"
    using one_result_per_line [OF ne prod.collapse [symmetric]] by blast
  have l0: "0 < length [''GPU 0: A (UUID: x)'', ''junk'']"
    and l1: "1 < length [''GPU 0: A (UUID: x)'', ''junk'']" by simp_all
  have "component (new ! 0) = ''GPU_'' @ str_nat 0 @ ''_'' @ ''Model''"
    using each l0 by blast
  moreover have "component (new ! 1) = ''GPU_'' @ str_nat 1 @ ''_'' @ ''Model''"
    using each l1 by blast
  moreover have "str_nat 1 = ''1''"
    by (simp add: str_nat.simps digit_char_def)
  ultimately show ?thesis
    using eq len by (intro conjI exI [of _ new]) simp_all
qed

text \<open>
  C9. When the NVIDIA inventory command succeeds with an empty trimmed output, the model
  check does not take the branch of the empty item list: the split gives one empty line,
  the pattern does not match it, and one FAIL check result \<open>GPU_0_Model\<close> with the actual
  value \<open>Parse Error\<close> is appended while the failure counter grows by 1.
\<close>

theorem nvidia_empty_output_parse_error:
  assumes "subprocess_run h ''nvidia-smi -L'' = Completed out"
    and "strip out = []"
    and "nvidia_check_models h v expected_model st = (v', st')"
  shows "failures v' = failures v + 1 \<and>
         checks st' = checks st @ [\<lparr>component = ''GPU_0_Model'', status = ''FAIL'',
            expected = expected_model, actual = ''Parse Error'', notes = []\<rparr>]"
proof -
  have "validate_list_of_items v [[]] ''Model'' expected_model nvidia_model_regex False
          (log_msg ''Checking GPU Models...'' False st) = (v', st')"
    using assms by (simp add: nvidia_check_models_def run_command_completed)
  from validate_list_of_items_nonempty(1,2) [OF _ this]
  show ?thesis
    by (simp add: line_result_def gpu_component_def)
qed

theorem nvidia_empty_output_parse_error_witness:
  "subprocess_run nvidia_silent_host ''nvidia-smi -L'' = Completed [] \<and> strip [] = [] \<and>
   failures (fst (nvidia_check_models nvidia_silent_host (new_validator NvidiaValidator [])
       (Str ''NVIDIA H100 80GB PCIe'') (initial_state ''t''))) = 1 \<and>
   checks (snd (nvidia_check_models nvidia_silent_host (new_validator NvidiaValidator [])
       (Str ''NVIDIA H100 80GB PCIe'') (initial_state ''t''))) =
     [\<lparr>component = ''GPU_0_Model'', status = ''FAIL'', expected = Str ''NVIDIA H100 80GB PCIe'',
       actual = ''Parse Error'', notes = []\<rparr>]"
proof -
  have run: "subprocess_run nvidia_silent_host ''nvidia-smi -L'' = Completed []"
    by (simp add: host_defs)
  have blank: "strip [] = []" by (simp add: strip_def)
  show ?thesis
    using run blank nvidia_empty_output_parse_error [OF run blank prod.collapse [symmetric]]
    by (simp add: new_validator_def initial_state_def initial_report_def)
qed

text \<open>
  C3. On the AMD validator, when the number of non-blank VBIOS lines differs from the
  number of model lines found by the model check, the VBIOS check records the dedicated
  count-mismatch failure on the console, adds 1 to the failure counter and returns: the
  lines are not compared and no check result is appended, so no \<open>GPU_<i>_VBIOS\<close> entry.
\<close>

theorem amd_vbios_count_mismatch:
  assumes "subprocess_run h ''rocm-smi --showproductname'' = Completed models_output"
    and "subprocess_run h ''rocm-smi --showvbios'' = Completed vbios_output"
    and "length (non_blank_lines (strip vbios_output)) \<noteq> length (non_blank_lines (strip models_output))"
    and "amd_check_models h v expected_model st = (v1, st1)"
    and "amd_check_vbios h v1 expected_vbios_list st1 = (v2, st2)"
  shows "failures v2 = failures v1 + 1 \<and> checks st2 = checks st1 \<and>
         stdout st2 = stdout st1 @
           [''[INFO] Checking GPU VBIOS Versions...'',
            ''[FAIL]   [FAIL] VBIOS count ('' @ str_nat (length (non_blank_lines (strip vbios_output))) @
            '') does not match GPU count ('' @ str_nat (length (non_blank_lines (strip models_output))) @ '').'']"
proof -
  let ?gpu_models = "non_blank_lines (strip models_output)"
  have "validate_list_of_items (v\<lparr>gpu_count := length ?gpu_models\<rparr>) ?gpu_models ''Model''
          expected_model amd_model_regex False
          (log_msg (''Found '' @ str_nat (length ?gpu_models) @ '' AMD GPU(s).'') False
             (log_msg ''Checking GPU Models...'' False st)) = (v1, st1)"
    using assms(1,4) by (simp add: amd_check_models_def run_command_completed Let_def)
  then have "gpu_count v1 = length ?gpu_models"
    using validate_list_of_items_nonempty(3) validate_list_of_items_empty(3)
    by (cases "?gpu_models = []") fastforce+
  then show ?thesis
    using assms(2,3,5) by (auto simp add: amd_check_vbios_def run_command_completed Let_def)
qed

theorem amd_vbios_count_mismatch_witness:
  "failures (fst (amd_check_vbios amd_mismatch_host
       (fst (amd_check_models amd_mismatch_host (new_validator AmdValidator []) (Str ''AMD Instinct MI300X'') (initial_state ''t'')))
       (StrList [''123.456.789.001''])
       (snd (amd_check_models amd_mismatch_host (new_validator AmdValidator []) (Str ''AMD Instinct MI300X'') (initial_state ''t''))))) =
   failures (fst (amd_check_models amd_mismatch_host (new_validator AmdValidator []) (Str ''AMD Instinct MI300X'') (initial_state ''t''))) + 1 \<and>
   checks (snd (amd_check_vbios amd_mismatch_host
       (fst (amd_check_models amd_mismatch_host (new_validator AmdValidator []) (Str ''AMD Instinct MI300X'') (initial_state ''t'')))
       (StrList [''123.456.789.001''])
       (snd (amd_check_models amd_mismatch_host (new_validator AmdValidator []) (Str ''AMD Instinct MI300X'') (initial_state ''t''))))) =
   checks (snd (amd_check_models amd_mismatch_host (new_validator AmdValidator []) (Str ''AMD Instinct MI300X'') (initial_state ''t'')))"
proof -
  let ?mo = "''Card #0: AMD Instinct MI300X'' @ [CHR 0x0A] @ ''Card #1: AMD Instinct MI300X''"
  let ?vo = "''Card #0: VBIOS version: 123.456.789.001''"
  have m: "subprocess_run amd_mismatch_host ''rocm-smi --showproductname'' = Completed ?mo"
    by (simp add: host_defs)
  have b: "subprocess_run amd_mismatch_host ''rocm-smi --showvbios'' = Completed ?vo"
    by (simp add: host_defs)
  have n: "length (non_blank_lines (strip ?vo)) \<noteq> length (non_blank_lines (strip ?mo))"
    by code_simp
  show ?thesis
    using amd_vbios_count_mismatch [OF m b n prod.collapse [symmetric] prod.collapse [symmetric]]
    by simp
qed

text \<open>
  C1, as the code has it. In a run that reaches the end (the system model is read and the
  baseline loads), the status of the report is PASS exactly when the failure count of
  the run is 0, the exit status is 0 exactly when the status is PASS, and a report with
  the status PASS has no FAIL check result: any FAIL entry makes the status FAIL. The
  converse does not hold, since a failure can be counted without a check result.
\<close>

theorem finalized_status:
  assumes "subprocess_run h (''dmidecode -s system-product-name | tr -d '' @ [CHR 0x27] @ '' '' @ [CHR 0x27]) = Completed out"
    and "strip out \<noteq> []"
    and "load_yaml h CONFIG_FILE_PATH = YamlData cfg"
    and "cfg \<noteq> []"
  shows "(overall_status (report_data (snd (main h))) = ''PASS'' \<longleftrightarrow>
            fst (run_validation h (strip out) cfg (snd (get_system_model h (initial_state (now h))))) = 0) \<and>
         (overall_status (report_data (snd (main h))) = ''PASS'' \<or>
          overall_status (report_data (snd (main h))) = ''FAIL'') \<and>
         (fst (main h) = 0 \<longleftrightarrow> overall_status (report_data (snd (main h))) = ''PASS'') \<and>
         (overall_status (report_data (snd (main h))) = ''PASS'' \<longrightarrow>
            (\<forall>c \<in> set (checks (snd (main h))). status c \<noteq> ''FAIL''))"
proof -
  let ?st2 = "snd (get_system_model h (initial_state (now h)))"
  note st2 = main_run(1) [OF assms] and m = main_run(2) [OF assms]
  obtain f st3 where rv: "run_validation h (strip out) cfg ?st2 = (f, st3)"
    by (cases "run_validation h (strip out) cfg ?st2")
  from run_validation_grows [OF rv] st2 have bound: "int (fail_count (checks st3)) \<le> f"
    by auto
  have main_eq: "main h = print_final_result f (strip out) (write_report h f st3)"
    using m rv by simp
  have rep: "report_data (snd (main h)) =
      (report_data st3)\<lparr>overall_status := (if f = 0 then ''PASS'' else ''FAIL'')\<rparr>"
    by (simp add: main_eq print_final_result_eq write_report_report)
  have code: "fst (main h) = (if f = 0 then 0 else 1)"
    by (simp add: main_eq print_final_result_eq)
  have "f = 0 \<Longrightarrow> fail_count (checks st3) = 0" using bound by simp
  then have "f = 0 \<Longrightarrow> \<forall>c \<in> set (checks st3). status c \<noteq> ''FAIL''"
    by (simp add: fail_count_zero)
  moreover have "fst (run_validation h (strip out) cfg ?st2) = f" using rv by simp
  ultimately show ?thesis
    using rep code by auto
qed

theorem finalized_status_witness:
  "overall_status (report_data (snd (main nvidia_host))) = ''PASS'' \<and>
   fst (main nvidia_host) = 0 \<and>
   fail_count (checks (snd (main nvidia_host))) = 0"
proof -
  have a: "subprocess_run nvidia_host
      (''dmidecode -s system-product-name | tr -d '' @ [CHR 0x27] @ '' '' @ [CHR 0x27]) = Completed ''SYS-421GU-TNXR''"
    by (simp add: host_defs)
  have b: "strip ''SYS-421GU-TNXR'' \<noteq> []" by (simp add: strip_sys_nvidia)
  have c: "load_yaml nvidia_host CONFIG_FILE_PATH = YamlData test_config"
    by (simp add: host_defs)
  have d: "test_config \<noteq> []" by (simp add: test_config_def)
  show ?thesis
    using finalized_status [OF a b c d] nvidia_host_passes
    by (simp add: fail_count_zero)
qed

text \<open>
  The claim C1 as stated fails on the host of the specification's own example, an AMD
  host with two model lines and one VBIOS line: the run ends with the status FAIL and
  its report has no FAIL check result.
\<close>

theorem status_fail_without_fail_entry:
  "overall_status (report_data (snd (main amd_mismatch_host))) = ''FAIL'' \<and>
   fail_count (checks (snd (main amd_mismatch_host))) = 0"
  using amd_mismatch_lines
  by (simp add: run_defs host_defs strip_sys_amd amd_mismatch_models Let_def)

text \<open>
  C6. In a run where the tool detected on the host is not the one of the declared vendor
  (no tool at all included), the report holds the single FAIL check result \<open>GPU_Vendor\<close>
  and nothing else: no entry \<open>GPU_<i>_<check_name>\<close> is appended, and the run fails.
\<close>

theorem vendor_mismatch_stops_run:
  assumes "subprocess_run h (''dmidecode -s system-product-name | tr -d '' @ [CHR 0x27] @ '' '' @ [CHR 0x27]) = Completed out"
    and "strip out \<noteq> []"
    and "load_yaml h CONFIG_FILE_PATH = YamlData cfg"
    and "map_of cfg (strip out) = Some ms"
    and "expected_gpu_vendor ms = Some ev"
    and "ev \<noteq> []"
    and "tool_found h \<noteq> Some ev"
  shows "checks (snd (main h)) =
           [\<lparr>component = ''GPU_Vendor'', status = ''FAIL'', expected = Str ev,
             actual = str_optional (tool_found h), notes = []\<rparr>] \<and>
         (\<forall>c \<in> set (checks (snd (main h))). \<forall>i check_name. component c \<noteq> gpu_component i check_name) \<and>
         fst (main h) = 1 \<and>
         overall_status (report_data (snd (main h))) = ''FAIL''"
proof -
  from assms(4) have "cfg \<noteq> []" by auto
  note st2 = main_run(1) [OF assms(1,2,3) this] and m = main_run(2) [OF assms(1,2,3) this]
  note rv = run_validation_mismatch [OF assms(4,5,6,7)]
  have "checks (snd (main h)) =
           [\<lparr>component = ''GPU_Vendor'', status = ''FAIL'', expected = Str ev,
             actual = str_optional (tool_found h), notes = []\<rparr>]"
    using st2 by (simp add: m rv vendor_mismatch_def print_final_result_eq write_report_report)
  moreover have "fst (main h) = 1"
    by (simp add: m rv vendor_mismatch_def print_final_result_eq)
  moreover have "overall_status (report_data (snd (main h))) = ''FAIL''"
    by (simp add: m rv vendor_mismatch_def print_final_result_eq write_report_report)
  ultimately show ?thesis
    using gpu_vendor_not_indexed by simp
qed

theorem vendor_mismatch_stops_run_witness:
  "checks (snd (main wrong_vendor_host)) =
     [\<lparr>component = ''GPU_Vendor'', status = ''FAIL'', expected = Str ''nvidia'',
       actual = ''amd'', notes = []\<rparr>] \<and>
   fst (main wrong_vendor_host) = 1 \<and>
   overall_status (report_data (snd (main wrong_vendor_host))) = ''FAIL''"
proof -
  have a: "subprocess_run wrong_vendor_host
      (''dmidecode -s system-product-name | tr -d '' @ [CHR 0x27] @ '' '' @ [CHR 0x27]) = Completed ''SYS-421GU-TNXR''"
    by (simp add: host_defs)
  have b: "strip ''SYS-421GU-TNXR'' \<noteq> []" by (simp add: strip_sys_nvidia)
  have c: "load_yaml wrong_vendor_host CONFIG_FILE_PATH = YamlData test_config"
    by (simp add: host_defs)
  have d: "map_of test_config (strip ''SYS-421GU-TNXR'') =
      Some \<lparr>expected_gpu_vendor = Some ''nvidia'',
        gpu_spec = Some [(''expected_model'', Str ''NVIDIA H100 80GB PCIe''),
                         (''expected_vbios_list'', StrList [''96.00.41.00.01'', ''96.00.40.00.05''])]\<rparr>"
    by (simp add: strip_sys_nvidia test_config_def)
  have e: "expected_gpu_vendor \<lparr>expected_gpu_vendor = Some ''nvidia'',
        gpu_spec = Some [(''expected_model'', Str ''NVIDIA H100 80GB PCIe''),
                         (''expected_vbios_list'', StrList [''96.00.41.00.01'', ''96.00.40.00.05''])]\<rparr> = Some ''nvidia''"
    by simp
  have f: "''nvidia'' \<noteq> []" by simp
  have t: "tool_found wrong_vendor_host = Some ''amd''"
    by (simp add: tool_found_def host_defs)
  then have g: "tool_found wrong_vendor_host \<noteq> Some ''nvidia''" by simp
  show ?thesis
    using vendor_mismatch_stops_run [OF a b c d e f g] by (simp add: t str_optional_def)
qed



text \<open>
  C2 on the NVIDIA validator. When the inventory command or the firmware command fails,
  the check adds 1 to the failure counter and appends no check result, where the AMD
  validator appends \<open>ROCM_SMI_MODEL\<close> or \<open>ROCM_SMI_VBIOS\<close>
  (lemma \<open>amd_command_failure_reported\<close>).
\<close>

theorem nvidia_command_failure_unreported:
  assumes "\<forall>out. subprocess_run h ''nvidia-smi -L'' \<noteq> Completed out"
    and "\<forall>out. subprocess_run h (''nvidia-smi -q | grep '' @ [CHR 0x27] @ ''VBIOS Version'' @ [CHR 0x27]) \<noteq> Completed out"
  shows "failures (fst (nvidia_check_models h v expected_model st)) = failures v + 1 \<and>
         checks (snd (nvidia_check_models h v expected_model st)) = checks st \<and>
         failures (fst (nvidia_check_vbios h v expected_vbios_list st)) = failures v + 1 \<and>
         checks (snd (nvidia_check_vbios h v expected_vbios_list st)) = checks st"
proof -
  from assms(1) obtain st0 where
    "run_command h ''nvidia-smi -L'' (log_msg ''Checking GPU Models...'' False st) = (None, st0)"
    "checks st0 = checks (log_msg ''Checking GPU Models...'' False st)"
    by (rule run_command_failed)
  then have "failures (fst (nvidia_check_models h v expected_model st)) = failures v + 1 \<and>
         checks (snd (nvidia_check_models h v expected_model st)) = checks st"
    by (simp add: nvidia_check_models_def)
  moreover from assms(2) obtain st1 where
    "run_command h (''nvidia-smi -q | grep '' @ [CHR 0x27] @ ''VBIOS Version'' @ [CHR 0x27])
       (log_msg ''Checking GPU VBIOS Versions...'' False st) = (None, st1)"
    "checks st1 = checks (log_msg ''Checking GPU VBIOS Versions...'' False st)"
    by (rule run_command_failed)
  then have "failures (fst (nvidia_check_vbios h v expected_vbios_list st)) = failures v + 1 \<and>
         checks (snd (nvidia_check_vbios h v expected_vbios_list st)) = checks st"
    by (simp add: nvidia_check_vbios_def)
  ultimately show ?thesis by simp
qed

theorem nvidia_command_failure_unreported_witness:
  "failures (fst (nvidia_check_models nvidia_failing_host (new_validator NvidiaValidator [])
      (Str ''NVIDIA H100 80GB PCIe'') (initial_state []))) = 1 \<and>
   checks (snd (nvidia_check_models nvidia_failing_host (new_validator NvidiaValidator [])
      (Str ''NVIDIA H100 80GB PCIe'') (initial_state []))) = []"
proof -
  have "\<forall>out. subprocess_run nvidia_failing_host ''nvidia-smi -L'' \<noteq> Completed out"
    and "\<forall>out. subprocess_run nvidia_failing_host
           (''nvidia-smi -q | grep '' @ [CHR 0x27] @ ''VBIOS Version'' @ [CHR 0x27]) \<noteq> Completed out"
    by (simp_all add: host_defs)
  from nvidia_command_failure_unreported [OF this]
  show ?thesis by (simp add: new_validator_def initial_state_def initial_report_def)
qed

text \<open>
  C10. The list \<open>checks_performed\<close> is append-only: after every operation of the program
  the list it found is a prefix of the list it leaves, so an entry, once appended, is
  neither changed nor removed; and no operation on a validator lowers its failure
  counter.
\<close>

theorem report_append_only:
  "prefix (checks st) (checks (add_check_to_report c s e a n st)) \<and>
   prefix (checks st) (checks (log_msg m is_error st)) \<and>
   prefix (checks st) (checks (snd (run_command h command st))) \<and>
   prefix (checks st) (checks (snd (validate_list_of_items v items check_name ev p is_vbios st))) \<and>
   failures v \<le> failures (fst (validate_list_of_items v items check_name ev p is_vbios st)) \<and>
   prefix (checks st) (checks (snd (check_models h v ev st))) \<and>
   failures v \<le> failures (fst (check_models h v ev st)) \<and>
   prefix (checks st) (checks (snd (check_vbios h v ev st))) \<and>
   failures v \<le> failures (fst (check_vbios h v ev st)) \<and>
   prefix (checks st) (checks (snd (snd (validate h v st)))) \<and>
   failures v \<le> failures (fst (snd (validate h v st))) \<and>
   prefix (checks st) (checks (snd (get_validator vendor sp st))) \<and>
   prefix (checks st) (checks (snd (get_system_model h st))) \<and>
   prefix (checks st) (checks (snd (load_config h path st))) \<and>
   prefix (checks st) (checks (snd (run_validation h sm cfg st))) \<and>
   prefix (checks st) (checks (write_report h f st)) \<and>
   prefix (checks st) (checks (snd (print_final_result f sm st)))"
proof -
  note l = validate_list_of_items_grows [OF prod.collapse [symmetric], of v items check_name ev p is_vbios st]
  note m = check_models_grows [OF prod.collapse [symmetric], of h v ev st]
  note b = check_vbios_grows [OF prod.collapse [symmetric], of h v ev st]
  have "validate h v st = (fst (validate h v st), fst (snd (validate h v st)), snd (snd (validate h v st)))"
    by simp
  note w = validate_grows(1) [OF this]
  note r = run_validation_grows [OF prod.collapse [symmetric], of h sm cfg st]
  have "prefix (checks st) (checks (snd (get_validator vendor sp st)))"
    using get_validator_checks [OF prod.collapse [symmetric], of vendor sp st] by simp
  then show ?thesis
    using grows_prefix [OF l] grows_mono [OF l] grows_prefix [OF m] grows_mono [OF m]
      grows_prefix [OF b] grows_mono [OF b] grows_prefix [OF w] grows_mono [OF w]
      grows_prefix [OF r] get_system_model_prefix load_config_prefix write_report_prefix
      print_final_result_prefix
    by simp
qed

text \<open>
  C8. Two runs on hosts in the same state (the same command results, the same tools, the
  same baseline document, the same outcome of writing) and at any two times end with
  the same exit status and with reports equal in every field but \<open>report_id\<close>: the same
  status, the same system model, the same list of check results. The console output and
  the files written (up to \<open>report_id\<close>) agree as well.
\<close>

theorem rerun_same_report:
  assumes "subprocess_run h1 = subprocess_run h2" and "which h1 = which h2"
    and "load_yaml h1 = load_yaml h2" and "write_json h1 = write_json h2"
  shows "fst (main h1) = fst (main h2) \<and>
         same_report (report_data (snd (main h1))) (report_data (snd (main h2))) \<and>
         stdout (snd (main h1)) = stdout (snd (main h2)) \<and>
         list_all2 (\<lambda>(p, rp) (p', rp'). p = p' \<and> same_report rp rp')
           (files (snd (main h1))) (files (snd (main h2)))"
proof -
  have "h1 = h2\<lparr>now := now h1\<rparr>"
    using assms by (intro host.equality) simp_all
  then have "main h1 = apsnd (with_id (''validation_report_'' @ now h1)) (main h2)"
    using main_now [where h = h2 and t = "now h1"] by simp
  then show ?thesis
    by (simp add: with_id_same)
qed

theorem rerun_same_report_witness:
  "same_report (report_data (snd (main (nvidia_host\<lparr>now := ''2025-06-30T12:00:00''\<rparr>))))
     (report_data (snd (main nvidia_host))) \<and>
   fst (main (nvidia_host\<lparr>now := ''2025-06-30T12:00:00''\<rparr>)) = fst (main nvidia_host)"
  using rerun_same_report [of "nvidia_host\<lparr>now := ''2025-06-30T12:00:00''\<rparr>" nvidia_host]
  by simp

end
